theory Spec2Isabelle
  imports Main "HOL-Library.Word"
begin

section \<open>The BigQuery stream output: data model\<close>

text \<open>
  The sink of \<^verbatim>\<open>output/bq-stream.go\<close> talks to three outside parties: the BigQuery
  metadata client, the managed-writer client with its stream, and the pipeline framework
  that hands over messages. None of them is code of the sink. Their answers are the
  fields of an environment record, and every call the sink makes is written to a trace
  of events, so that what the sink does (which handles it closes, how often it appends,
  how often it reconnects) can be read off the trace.
\<close>

subsection \<open>Errors\<close>

text \<open>The gRPC status codes of \<^verbatim>\<open>google.golang.org/grpc/codes\<close>.\<close>

datatype code =
    OK | Canceled | Unknown | InvalidArgument | DeadlineExceeded | NotFound
  | AlreadyExists | PermissionDenied | ResourceExhausted | FailedPrecondition
  | Aborted | OutOfRange | Unimplemented | Internal | Unavailable | DataLoss
  | Unauthenticated

text \<open>
  What \<^verbatim>\<open>apierror.FromError(err)\<close> followed by \<^verbatim>\<open>apiErr.Unwrap()\<close> and
  \<^verbatim>\<open>status.FromError\<close> of the unwrapped cause shows of an error: it is no API error;
  it is one whose cause is nil; or it is one with a cause, and the cause carries a status
  code or none.
\<close>

datatype apierror = NoAPIError | APIErrorNilCause | APIErrorCause "code option"

text \<open>
  An error value produced by a library call, as far as the sink can observe it:
  \<^item> \<open>status_FromError\<close>: the code of \<^verbatim>\<open>status.FromError(err)\<close> when that returns ok;
  \<^item> \<open>apierror_FromError\<close>: the view through \<^verbatim>\<open>apierror.FromError\<close>;
  \<^item> \<open>googleapi_Code\<close>: the HTTP code when the error is a \<^verbatim>\<open>*googleapi.Error\<close>;
  \<^item> \<open>Error_text\<close>: the string of \<^verbatim>\<open>err.Error()\<close>.
\<close>

record lib_error =
  status_FromError :: "code option"
  apierror_FromError :: apierror
  googleapi_Code :: "int option"
  Error_text :: string

text \<open>
  Modelled from the spec: the framework's batch error type (\<^verbatim>\<open>service.BatchError\<close>,
  not part of this repository), which the spec describes as a structured per-item error
  recording an index-keyed map of failures. \<open>NewBatchError\<close> keeps the headline error
  and starts with no entry; \<open>Failed\<close> stores the error under the index, replacing an
  earlier entry of the same index.
\<close>

record batch_error =
  headline :: lib_error
  batch_len :: nat
  failed :: "(nat \<times> lib_error) list"

definition NewBatchError :: "'m list \<Rightarrow> lib_error \<Rightarrow> batch_error" where
  "NewBatchError batch err = \<lparr>headline = err, batch_len = length batch, failed = []\<rparr>"

fun store_failed :: "nat \<Rightarrow> lib_error \<Rightarrow> (nat \<times> lib_error) list \<Rightarrow> (nat \<times> lib_error) list" where
  "store_failed i e [] = [(i, e)]"
| "store_failed i e ((j, e') # rest) =
     (if i = j then (j, e) # rest else (j, e') # store_failed i e rest)"

definition Failed :: "batch_error \<Rightarrow> nat \<Rightarrow> lib_error \<Rightarrow> batch_error" where
  "Failed be i e = be\<lparr>failed := store_failed i e (failed be)\<rparr>"

type_synonym int64 = "64 word"

text \<open>\<^verbatim>\<open>managedwriter.NoStreamOffset\<close>, the library's constant for "no explicit offset".\<close>

definition NoStreamOffset :: int64 where
  "NoStreamOffset = -1"

text \<open>
  The errors the sink itself returns: the framework's \<^verbatim>\<open>service.ErrNotConnected\<close>, a
  library error handed on as it is, \<^verbatim>\<open>fmt.Errorf("...: %w", err)\<close> around another
  error, \<^verbatim>\<open>fmt.Errorf\<close> of a plain text, the offset mismatch (got, want) and the
  batch error.
\<close>

datatype go_error =
    ErrNotConnected
  | Lib lib_error
  | Wrap string go_error
  | Text string
  | OffsetMismatch int64 int64
  | BatchErr batch_error

text \<open>A Go call either panics or returns.\<close>

datatype 'a result = Panic | Return 'a

subsection \<open>Handles, schema objects, configuration\<close>

datatype resource = ClientH | MWClientH | StreamH

type_synonym handle = nat

datatype bq_schema = BQSchema nat
datatype storage_schema = StorageSchema nat
datatype descriptor = Descriptor nat
datatype message_descriptor = MessageDescriptor nat
datatype descriptor_proto = DescriptorProto nat

type_synonym bytes = "8 word list"

datatype message = Message nat
datatype dynamic_message = DynamicMessage nat

record gcpBigQueryOutputConfig =
  ProjectID :: string
  DatasetID :: string
  TableID :: string
  AllowPartial :: bool
  DiscardUnknown :: bool
  CredentialsJSON :: string

record UnmarshalOptions =
  umo_AllowPartial :: bool
  umo_DiscardUnknown :: bool

record gcpBigQueryOutput =
  conf :: gcpBigQueryOutputConfig
  client :: "handle option"
  mwClient :: "handle option"
  managedStream :: "handle option"
  messageDescriptor :: "message_descriptor option"
  descriptorProto :: "descriptor_proto option"
  umo :: UnmarshalOptions

definition newGCPBigQueryOutput :: "gcpBigQueryOutputConfig \<Rightarrow> gcpBigQueryOutput" where
  "newGCPBigQueryOutput c =
     \<lparr>conf = c, client = None, mwClient = None, managedStream = None,
      messageDescriptor = None, descriptorProto = None,
      umo = \<lparr>umo_AllowPartial = AllowPartial c, umo_DiscardUnknown = DiscardUnknown c\<rparr>\<rparr>"

subsection \<open>Events and the environment\<close>

text \<open>
  The destination and schema a stream is opened with:
  \<^verbatim>\<open>TableParentFromParts(ProjectID, DatasetID, TableID)\<close> and
  \<^verbatim>\<open>WithSchemaDescriptor\<close>; the stream type is always \<^verbatim>\<open>DefaultStream\<close>.
\<close>

type_synonym stream_args = "(string \<times> string \<times> string) \<times> descriptor_proto option"

datatype event =
    Lock | Unlock | RLock | RUnlock
  | Opened resource handle
  | Closed resource handle
  | DatasetMetadata
  | TableMetadata
  | NewManagedStreamCall handle stream_args
  | Sleep
  | AsBytesCall nat
  | UnmarshalCall nat
  | MarshalCall nat
  | AppendRowsCall handle "bytes list"
  | GetResultCall

type_synonym trace = "event list"

fun is_NewManagedStream :: "event \<Rightarrow> bool" where
  "is_NewManagedStream (NewManagedStreamCall _ _) = True"
| "is_NewManagedStream _ = False"

fun is_AppendRows :: "event \<Rightarrow> bool" where
  "is_AppendRows (AppendRowsCall _ _) = True"
| "is_AppendRows _ = False"

fun is_AsBytes :: "event \<Rightarrow> bool" where
  "is_AsBytes (AsBytesCall _) = True"
| "is_AsBytes _ = False"

fun is_Metadata :: "event \<Rightarrow> bool" where
  "is_Metadata DatasetMetadata = True"
| "is_Metadata TableMetadata = True"
| "is_Metadata _ = False"

fun is_Closed :: "event \<Rightarrow> bool" where
  "is_Closed (Closed _ _) = True"
| "is_Closed _ = False"

definition count_ev :: "(event \<Rightarrow> bool) \<Rightarrow> trace \<Rightarrow> nat" where
  "count_ev P t = length (filter P t)"

text \<open>
  The answers of the libraries. Calls that can be repeated within one run of the sink
  (opening a stream, appending, fetching the result) are answered by call number: the
  number of earlier calls of that kind in the trace. The last field says, for each kind
  of handle, whether the library's \<^verbatim>\<open>Close\<close> panics when the handle has been closed
  before; an error it returns instead is ignored by the sink in every place.
\<close>

record env =
  bq_NewClient :: "lib_error + handle"
  mw_NewClient :: "lib_error + handle"
  dataset_Metadata :: "lib_error option"
  table_Metadata :: "lib_error + bq_schema"
  BQSchemaToStorageTableSchema :: "bq_schema \<Rightarrow> lib_error + storage_schema"
  StorageSchemaToProto2Descriptor :: "storage_schema \<Rightarrow> lib_error + descriptor"
  as_MessageDescriptor :: "descriptor \<Rightarrow> message_descriptor option"
  NormalizeDescriptor :: "message_descriptor \<Rightarrow> lib_error + descriptor_proto"
  NewManagedStream :: "nat \<Rightarrow> lib_error + handle"
  AsBytes :: "message \<Rightarrow> lib_error + bytes"
  Unmarshal :: "UnmarshalOptions \<Rightarrow> message_descriptor option \<Rightarrow> bytes \<Rightarrow> lib_error + dynamic_message"
  Marshal :: "dynamic_message \<Rightarrow> lib_error + bytes"
  AppendRows :: "nat \<Rightarrow> lib_error option"
  GetResult :: "nat \<Rightarrow> lib_error + int64"
  panics_on_closed :: "resource \<Rightarrow> bool"

section \<open>Error classification\<close>

text \<open>Go's \<^verbatim>\<open>strings.HasPrefix\<close> and \<^verbatim>\<open>strings.Contains\<close> on byte strings.\<close>

fun HasPrefix :: "string \<Rightarrow> string \<Rightarrow> bool" where
  "HasPrefix s [] = True"
| "HasPrefix [] (c # cs) = False"
| "HasPrefix (x # xs) (c # cs) = (x = c \<and> HasPrefix xs cs)"

fun Contains :: "string \<Rightarrow> string \<Rightarrow> bool" where
  "Contains [] substr = (substr = [])"
| "Contains (x # xs) substr = (HasPrefix (x # xs) substr \<or> Contains xs substr)"

definition hasStatusCode :: "lib_error \<Rightarrow> int \<Rightarrow> bool" where
  "hasStatusCode err c = (case googleapi_Code err of Some k \<Rightarrow> k = c | None \<Rightarrow> False)"

text \<open>
  \<^verbatim>\<open>isReconnectableError\<close>: nil is not reconnectable; then the status code of the error,
  then the status code of the cause of a structured API error, then the two text patterns.
\<close>

definition isReconnectableError :: "lib_error option \<Rightarrow> bool" where
  "isReconnectableError err =
     (case err of
        None \<Rightarrow> False
      | Some e \<Rightarrow>
          if (case status_FromError e of
                Some Aborted \<Rightarrow> True
              | Some Unavailable \<Rightarrow> True
              | Some Internal \<Rightarrow> True
              | Some DeadlineExceeded \<Rightarrow> True
              | _ \<Rightarrow> False)
          then True
          else if (case apierror_FromError e of
                     APIErrorCause (Some c) \<Rightarrow>
                       (c = Aborted \<or> c = Unavailable \<or> c = Internal \<or> c = DeadlineExceeded)
                   | _ \<Rightarrow> False)
          then True
          else if Contains (Error_text e) ''connection TTL'' \<and> Contains (Error_text e) ''exceeded''
          then True
          else if Contains (Error_text e) ''server_shutting_down''
          then True
          else False)"

section \<open>Connection establishment\<close>

text \<open>
  \<^verbatim>\<open>getDescriptor\<close> returns the triple (message descriptor, descriptor proto, error).
  When the type assertion to a message descriptor fails, the source returns the error
  variable of the preceding call, which is nil at that point.
\<close>

definition getDescriptor ::
    "env \<Rightarrow> bq_schema \<Rightarrow> message_descriptor option \<times> descriptor_proto option \<times> lib_error option" where
  "getDescriptor env schema =
     (case BQSchemaToStorageTableSchema env schema of
        Inl err \<Rightarrow> (None, None, Some err)
      | Inr convertedSchema \<Rightarrow>
          (case StorageSchemaToProto2Descriptor env convertedSchema of
             Inl err \<Rightarrow> (None, None, Some err)
           | Inr d \<Rightarrow>
               (case as_MessageDescriptor env d of
                  None \<Rightarrow> (None, None, None)
                | Some md \<Rightarrow>
                    (case NormalizeDescriptor env md of
                       Inl err \<Rightarrow> (None, None, Some err)
                     | Inr dp \<Rightarrow> (Some md, Some dp, None)))))"

definition target :: "gcpBigQueryOutputConfig \<Rightarrow> string \<times> string \<times> string" where
  "target c = (ProjectID c, DatasetID c, TableID c)"

text \<open>
  Go's \<^verbatim>\<open>defer\<close>: the deferred calls of \<^verbatim>\<open>Connect\<close> are the unlock and, for each
  handle opened so far, a close that runs only when the named result \<^verbatim>\<open>err\<close> is not nil.
  They run at return, the last deferred first (the list is the stack, top first).
\<close>

datatype deferred = DeferUnlock | DeferClose resource handle

fun run_deferred :: "go_error option \<Rightarrow> deferred list \<Rightarrow> trace \<Rightarrow> trace" where
  "run_deferred err [] t = t"
| "run_deferred err (DeferUnlock # ds) t = run_deferred err ds (t @ [Unlock])"
| "run_deferred err (DeferClose r h # ds) t =
     run_deferred err ds (if err \<noteq> None then t @ [Closed r h] else t)"

definition Connect_body ::
    "env \<Rightarrow> gcpBigQueryOutput \<Rightarrow> trace \<Rightarrow> go_error option \<times> gcpBigQueryOutput \<times> trace \<times> deferred list" where
  "Connect_body env g t0 =
     (let t1 = t0 @ [Lock]; d1 = [DeferUnlock] in
      case bq_NewClient env of
        Inl e \<Rightarrow> (Some (Wrap ''error creating big query client'' (Lib e)), g, t1, d1)
      | Inr c \<Rightarrow>
     (let t2 = t1 @ [Opened ClientH c]; d2 = DeferClose ClientH c # d1 in
      case mw_NewClient env of
        Inl e \<Rightarrow> (Some (Wrap ''error creating BigQuery managed writer client'' (Lib e)), g, t2, d2)
      | Inr m \<Rightarrow>
     (let t3 = t2 @ [Opened MWClientH m]; d3 = DeferClose MWClientH m # d2;
          t4 = t3 @ [DatasetMetadata] in
      case dataset_Metadata env of
        Some e \<Rightarrow>
          (Some (if hasStatusCode e 404
                 then Text (''dataset does not exist: '' @ DatasetID (conf g))
                 else Wrap ''error checking dataset existence'' (Lib e)), g, t4, d3)
      | None \<Rightarrow>
     (let t5 = t4 @ [TableMetadata] in
      case table_Metadata env of
        Inl e \<Rightarrow>
          (Some (if hasStatusCode e 404
                 then Text (''table does not exist: '' @ TableID (conf g))
                 else Wrap ''error checking table existence'' (Lib e)), g, t5, d3)
      | Inr schema \<Rightarrow>
     (case getDescriptor env schema of
        (md, dp, Some e) \<Rightarrow> (Some (Lib e), g, t5, d3)
      | (md, dp, None) \<Rightarrow>
     (let k = count_ev is_NewManagedStream t5;
          t6 = t5 @ [NewManagedStreamCall m (target (conf g), dp)] in
      case NewManagedStream env k of
        Inl e \<Rightarrow> (Some (Wrap ''error creating BigQuery managed stream'' (Lib e)), g, t6, d3)
      | Inr ms \<Rightarrow>
          (None,
           g\<lparr>client := Some c, mwClient := Some m, managedStream := Some ms,
             messageDescriptor := md, descriptorProto := dp\<rparr>,
           t6 @ [Opened StreamH ms],
           DeferClose StreamH ms # d3)))))))"

definition Connect ::
    "env \<Rightarrow> gcpBigQueryOutput \<Rightarrow> trace \<Rightarrow> go_error option \<times> gcpBigQueryOutput \<times> trace" where
  "Connect env g t0 =
     (case Connect_body env g t0 of (err, g', t, ds) \<Rightarrow> (err, g', run_deferred err ds t))"

section \<open>Reconnect and close\<close>

text \<open>
  \<^verbatim>\<open>reconnect\<close> calls \<^verbatim>\<open>g.mwClient.NewManagedStream\<close> and, after installing the new
  stream, \<^verbatim>\<open>g.client.Project()\<close> for its log line, without a nil check on either
  field: a nil receiver panics there. The deferred unlock runs in every case.
\<close>

definition reconnect ::
    "env \<Rightarrow> gcpBigQueryOutput \<Rightarrow> trace \<Rightarrow> go_error option result \<times> gcpBigQueryOutput \<times> trace" where
  "reconnect env g t0 =
     (let t1 = t0 @ [Lock];
          (g1, t2) = (case managedStream g of
                        Some old \<Rightarrow> (g\<lparr>managedStream := None\<rparr>, t1 @ [Closed StreamH old])
                      | None \<Rightarrow> (g, t1));
          t3 = t2 @ [Sleep]
      in case mwClient g1 of
           None \<Rightarrow> (Panic, g1, t3 @ [Unlock])
         | Some m \<Rightarrow>
             (let k = count_ev is_NewManagedStream t3;
                  t4 = t3 @ [NewManagedStreamCall m (target (conf g1), descriptorProto g1)] in
              case NewManagedStream env k of
                Inl err \<Rightarrow>
                  (Return (Some (Wrap ''error creating new BigQuery managed stream'' (Lib err))),
                   g1, t4 @ [Unlock])
              | Inr ms \<Rightarrow>
                  (let g2 = g1\<lparr>managedStream := Some ms\<rparr>; t5 = t4 @ [Opened StreamH ms] in
                   case client g2 of
                     None \<Rightarrow> (Panic, g2, t5 @ [Unlock])
                   | Some _ \<Rightarrow> (Return None, g2, t5 @ [Unlock]))))"

text \<open>
  Whether a handle has been closed and not opened again since: the last event of the
  trace about it is its close.
\<close>

fun last_closed :: "resource \<Rightarrow> handle \<Rightarrow> trace \<Rightarrow> bool" where
  "last_closed r h [] = False"
| "last_closed r h (Closed r' h' # t) = (if r' = r \<and> h' = h then True else last_closed r h t)"
| "last_closed r h (Opened r' h' # t) = (if r' = r \<and> h' = h then False else last_closed r h t)"
| "last_closed r h (e # t) = last_closed r h t"

definition closed_before :: "resource \<Rightarrow> handle \<Rightarrow> trace \<Rightarrow> bool" where
  "closed_before r h t = last_closed r h (rev t)"

text \<open>
  \<^verbatim>\<open>Close\<close> takes the lock, closes in turn the metadata client, the write client and
  the stream where the field is not nil, and unlocks at its end, without \<^verbatim>\<open>defer\<close>: a
  panic inside one of the three closes leaves the lock held. The branch of the write
  client assigns nil to \<^verbatim>\<open>g.client\<close>, as the source does, so the write client field keeps
  its handle and a later \<^verbatim>\<open>Close\<close> closes that handle again. The three branches are
  \<open>Close\<close>, \<open>Close_mwClient\<close> and \<open>Close_stream\<close>, each running the ones after it.
  (In \<open>Connect\<close> and \<open>reconnect\<close> a handle is closed right after it was opened or while
  the sink holds it as its live stream, never twice.)
\<close>

definition Close_stream ::
    "env \<Rightarrow> gcpBigQueryOutput \<Rightarrow> trace \<Rightarrow> go_error option result \<times> gcpBigQueryOutput \<times> trace" where
  "Close_stream env g t =
     (case managedStream g of
        Some s \<Rightarrow>
          if closed_before StreamH s t \<and> panics_on_closed env StreamH
          then (Panic, g, t @ [Closed StreamH s])
          else (Return None, g\<lparr>managedStream := None\<rparr>, t @ [Closed StreamH s, Unlock])
      | None \<Rightarrow> (Return None, g, t @ [Unlock]))"

definition Close_mwClient ::
    "env \<Rightarrow> gcpBigQueryOutput \<Rightarrow> trace \<Rightarrow> go_error option result \<times> gcpBigQueryOutput \<times> trace" where
  "Close_mwClient env g t =
     (case mwClient g of
        Some m \<Rightarrow>
          if closed_before MWClientH m t \<and> panics_on_closed env MWClientH
          then (Panic, g, t @ [Closed MWClientH m])
          else Close_stream env (g\<lparr>client := None\<rparr>) (t @ [Closed MWClientH m])
      | None \<Rightarrow> Close_stream env g t)"

definition Close ::
    "env \<Rightarrow> gcpBigQueryOutput \<Rightarrow> trace \<Rightarrow> go_error option result \<times> gcpBigQueryOutput \<times> trace" where
  "Close env g t0 =
     (let t1 = t0 @ [Lock] in
      case client g of
        Some c \<Rightarrow>
          if closed_before ClientH c t1 \<and> panics_on_closed env ClientH
          then (Panic, g, t1 @ [Closed ClientH c])
          else Close_mwClient env (g\<lparr>client := None\<rparr>) (t1 @ [Closed ClientH c])
      | None \<Rightarrow> Close_mwClient env g t1)"

section \<open>Writing a batch\<close>

definition setErr ::
    "message list \<Rightarrow> batch_error option \<Rightarrow> nat \<Rightarrow> lib_error \<Rightarrow> batch_error option" where
  "setErr batch batchErr idx err =
     Some (Failed (case batchErr of None \<Rightarrow> NewBatchError batch err | Some be \<Rightarrow> be) idx err)"

text \<open>
  The body of the conversion loop for the message at index \<open>i\<close>: byte extraction,
  unmarshalling into a dynamic message of the cached descriptor, marshalling. It yields
  the row or the error of the first step that failed, and the calls made.
\<close>

definition convert_one ::
    "env \<Rightarrow> gcpBigQueryOutput \<Rightarrow> nat \<Rightarrow> message \<Rightarrow> (lib_error + bytes) \<times> event list" where
  "convert_one env g i msg =
     (case AsBytes env msg of
        Inl err \<Rightarrow> (Inl err, [AsBytesCall i])
      | Inr msgBytes \<Rightarrow>
          (case Unmarshal env (umo g) (messageDescriptor g) msgBytes of
             Inl err \<Rightarrow> (Inl err, [AsBytesCall i, UnmarshalCall i])
           | Inr m \<Rightarrow>
               (case Marshal env m of
                  Inl err \<Rightarrow> (Inl err, [AsBytesCall i, UnmarshalCall i, MarshalCall i])
                | Inr b \<Rightarrow> (Inr b, [AsBytesCall i, UnmarshalCall i, MarshalCall i]))))"

fun convert_loop ::
    "env \<Rightarrow> gcpBigQueryOutput \<Rightarrow> message list \<Rightarrow> nat \<Rightarrow> message list \<Rightarrow>
     batch_error option \<Rightarrow> bytes list \<Rightarrow> trace \<Rightarrow> batch_error option \<times> bytes list \<times> trace" where
  "convert_loop env g batch i [] batchErr rows t = (batchErr, rows, t)"
| "convert_loop env g batch i (msg # rest) batchErr rows t =
     (case convert_one env g i msg of
        (Inl err, evs) \<Rightarrow>
          convert_loop env g batch (i + 1) rest (setErr batch batchErr i err) rows (t @ evs)
      | (Inr b, evs) \<Rightarrow>
          convert_loop env g batch (i + 1) rest batchErr (rows @ [b]) (t @ evs))"

definition maxRetries :: int where
  "maxRetries = 2"

text \<open>
  \<^verbatim>\<open>writeBatchWithRetry\<close>. The retry is a recursive call of the whole function with
  \<^verbatim>\<open>retryCount + 1\<close>, guarded by \<^verbatim>\<open>retryCount < maxRetries\<close>.
\<close>

function writeBatchWithRetry ::
    "env \<Rightarrow> message list \<Rightarrow> int \<Rightarrow> gcpBigQueryOutput \<Rightarrow> trace \<Rightarrow>
     go_error option result \<times> gcpBigQueryOutput \<times> trace" where
  "writeBatchWithRetry env batch retryCount g t0 =
     (let t1 = t0 @ [RLock, RUnlock] in
      case managedStream g of
        None \<Rightarrow> (Return (Some ErrNotConnected), g, t1)
      | Some ms \<Rightarrow>
          (case convert_loop env g batch 0 batch None [] t1 of
             (batchErr, rows, t2) \<Rightarrow>
               if length rows = 0
               then (case batchErr of
                       Some be \<Rightarrow> (Return (Some (BatchErr be)), g, t2)
                     | None \<Rightarrow> (Return None, g, t2))
               else
                 (let k = count_ev is_AppendRows t2; t3 = t2 @ [AppendRowsCall ms rows] in
                  case AppendRows env k of
                    Some err \<Rightarrow>
                      if isReconnectableError (Some err) \<and> retryCount < maxRetries
                      then (case reconnect env g t3 of
                              (Panic, g', t') \<Rightarrow> (Panic, g', t')
                            | (Return (Some reconnectErr), g', t') \<Rightarrow>
                                (Return (Some (Wrap ''connection error reconnect failed'' reconnectErr)),
                                 g', t')
                            | (Return None, g', t') \<Rightarrow>
                                writeBatchWithRetry env batch (retryCount + 1) g' t')
                      else (Return (Some (Lib err)), g, t3)
                  | None \<Rightarrow>
                      (let t4 = t3 @ [GetResultCall] in
                       case GetResult env k of
                         Inl err \<Rightarrow>
                           if isReconnectableError (Some err) \<and> retryCount < maxRetries
                           then (case reconnect env g t4 of
                                   (Panic, g', t') \<Rightarrow> (Panic, g', t')
                                 | (Return (Some reconnectErr), g', t') \<Rightarrow>
                                     (Return (Some (Wrap ''connection error reconnect failed'' reconnectErr)),
                                      g', t')
                                 | (Return None, g', t') \<Rightarrow>
                                     writeBatchWithRetry env batch (retryCount + 1) g' t')
                           else (Return (Some (Lib err)), g, t4)
                       | Inr off \<Rightarrow>
                           if off \<noteq> NoStreamOffset
                           then (Return (Some (OffsetMismatch off NoStreamOffset)), g, t4)
                           else (case batchErr of
                                   Some be \<Rightarrow> (Return (Some (BatchErr be)), g, t4)
                                 | None \<Rightarrow> (Return None, g, t4))))))"
  by pat_completeness auto
termination
  by (relation "measure (\<lambda>(env, batch, retryCount, g, t0). nat (maxRetries - retryCount))")
     (auto simp: maxRetries_def)

declare writeBatchWithRetry.simps [simp del]

definition WriteBatch ::
    "env \<Rightarrow> message list \<Rightarrow> gcpBigQueryOutput \<Rightarrow> trace \<Rightarrow>
     go_error option result \<times> gcpBigQueryOutput \<times> trace" where
  "WriteBatch env batch g t0 = writeBatchWithRetry env batch 0 g t0"

section \<open>Reference functions for stating the properties\<close>

text \<open>
  The outcome of converting one message, without the calls made; it does not depend on
  the index of the message.
\<close>

definition conv :: "env \<Rightarrow> gcpBigQueryOutput \<Rightarrow> message \<Rightarrow> lib_error + bytes" where
  "conv env g msg = fst (convert_one env g 0 msg)"

text \<open>The rows of the messages that convert, in the order of the batch.\<close>

fun rows_of :: "env \<Rightarrow> gcpBigQueryOutput \<Rightarrow> message list \<Rightarrow> bytes list" where
  "rows_of env g [] = []"
| "rows_of env g (m # ms) =
     (case conv env g m of Inl e \<Rightarrow> rows_of env g ms | Inr b \<Rightarrow> b # rows_of env g ms)"

text \<open>
  The failures of the messages that do not convert, each with the index of its message,
  counting from \<open>i\<close> for the first message of the list.
\<close>

fun failures_from :: "env \<Rightarrow> gcpBigQueryOutput \<Rightarrow> nat \<Rightarrow> message list \<Rightarrow> (nat \<times> lib_error) list" where
  "failures_from env g i [] = []"
| "failures_from env g i (m # ms) =
     (case conv env g m of
        Inl e \<Rightarrow> (i, e) # failures_from env g (i + 1) ms
      | Inr b \<Rightarrow> failures_from env g (i + 1) ms)"

text \<open>The batch error that the conversion loop builds from a list of failures.\<close>

definition batch_error_of :: "message list \<Rightarrow> (nat \<times> lib_error) list \<Rightarrow> batch_error option" where
  "batch_error_of batch fs =
     (case fs of
        [] \<Rightarrow> None
      | f # _ \<Rightarrow> Some \<lparr>headline = snd f, batch_len = length batch, failed = fs\<rparr>)"

text \<open>The events a call added to the trace it started from.\<close>

definition new_events :: "trace \<Rightarrow> trace \<Rightarrow> trace" where
  "new_events t0 t = drop (length t0) t"

text \<open>\<open>n\<close> calls of \<^verbatim>\<open>reconnect\<close> in a row, whatever each of them returns.\<close>

fun reconnects :: "env \<Rightarrow> nat \<Rightarrow> gcpBigQueryOutput \<Rightarrow> trace \<Rightarrow> gcpBigQueryOutput \<times> trace" where
  "reconnects env 0 g t = (g, t)"
| "reconnects env (Suc n) g t =
     (case reconnect env g t of (r, g', t') \<Rightarrow> reconnects env n g' t')"

text \<open>
  The classification in the words of the specification: the error carries one of the
  four status codes, or it is a structured API error whose cause carries one of them, or
  its text has the session-TTL pattern or the server-shutdown pattern.
\<close>

definition reconnect_codes :: "code set" where
  "reconnect_codes = {Aborted, Unavailable, Internal, DeadlineExceeded}"

definition reconnect_worthy :: "lib_error \<Rightarrow> bool" where
  "reconnect_worthy e =
     ((case status_FromError e of Some c \<Rightarrow> c \<in> reconnect_codes | None \<Rightarrow> False)
      \<or> (case apierror_FromError e of
            APIErrorCause (Some c) \<Rightarrow> c \<in> reconnect_codes
          | _ \<Rightarrow> False)
      \<or> (Contains (Error_text e) ''connection TTL'' \<and> Contains (Error_text e) ''exceeded'')
      \<or> Contains (Error_text e) ''server_shutting_down'')"

text \<open>The calls the conversion loop makes for a list of messages, the first at index \<open>i\<close>.\<close>

fun conv_events :: "env \<Rightarrow> gcpBigQueryOutput \<Rightarrow> nat \<Rightarrow> message list \<Rightarrow> event list" where
  "conv_events env g i [] = []"
| "conv_events env g i (m # ms) = snd (convert_one env g i m) @ conv_events env g (i + 1) ms"

text \<open>
  The error of one append attempt: that of the append call, or else that of fetching
  its result; \<open>None\<close> when both succeed.
\<close>

definition attempt_error :: "env \<Rightarrow> nat \<Rightarrow> lib_error option" where
  "attempt_error env k =
     (case AppendRows env k of
        Some e \<Rightarrow> Some e
      | None \<Rightarrow> (case GetResult env k of Inl e \<Rightarrow> Some e | Inr off \<Rightarrow> None))"


fun is_Lock :: "event \<Rightarrow> bool" where
  "is_Lock Lock = True"
| "is_Lock _ = False"


text \<open>
  The handles a trace leaves open: those opened and not closed afterwards, in the order
  of opening, starting from the handles \<open>acc\<close> that were open before.
\<close>

fun held :: "(resource \<times> handle) list \<Rightarrow> trace \<Rightarrow> (resource \<times> handle) list" where
  "held acc [] = acc"
| "held acc (Opened r h # t) = held (acc @ [(r, h)]) t"
| "held acc (Closed r h # t) = held (removeAll (r, h) acc) t"
| "held acc (e # t) = held acc t"

text \<open>
  The trace after one append attempt on the stream \<open>ms\<close> that started at trace \<open>t\<close>:
  the read lock, the conversion calls, the append call and, when the append call
  succeeded, the fetch of its result.
\<close>

definition attempt_trace :: "env \<Rightarrow> gcpBigQueryOutput \<Rightarrow> message list \<Rightarrow> handle \<Rightarrow> trace \<Rightarrow> trace" where
  "attempt_trace env g batch ms t =
     t @ [RLock, RUnlock] @ conv_events env g 0 batch
       @ [AppendRowsCall ms (rows_of env g batch)]
       @ (case AppendRows env (count_ev is_AppendRows t) of
            None \<Rightarrow> [GetResultCall]
          | Some e \<Rightarrow> [])"

text \<open>What the caller gets when the reconnect did not succeed: the panic, or the error wrapped.\<close>

definition reconnect_failed :: "go_error option result \<Rightarrow> go_error option result" where
  "reconnect_failed r =
     (case r of
        Panic \<Rightarrow> Panic
      | Return x \<Rightarrow> Return (map_option (Wrap ''connection error reconnect failed'') x))"

text \<open>
  What every run of the batch write keeps and what it adds to the trace: the sink changes
  in its stream handle at most; each append call carries the converted rows; each
  attempt converts the whole batch; no metadata is fetched; a stream is opened only
  under the exclusive lock, which is taken at most as often as retries remain.
\<close>

definition run_facts ::
  "env \<Rightarrow> message list \<Rightarrow> int \<Rightarrow> gcpBigQueryOutput \<Rightarrow> trace
   \<Rightarrow> go_error option result \<times> gcpBigQueryOutput \<times> trace \<Rightarrow> bool" where
  "run_facts env batch rc g t res =
     (case res of (r, g', t') \<Rightarrow>
        umo g' = umo g \<and> messageDescriptor g' = messageDescriptor g
      \<and> descriptorProto g' = descriptorProto g \<and> conf g' = conf g
      \<and> client g' = client g \<and> mwClient g' = mwClient g
      \<and> (\<exists>evs. t' = t @ evs
           \<and> (\<forall>s rows. AppendRowsCall s rows \<in> set evs \<longrightarrow> rows = rows_of env g batch)
           \<and> (managedStream g \<noteq> None \<longrightarrow> rows_of env g batch \<noteq> [] \<longrightarrow>
                count_ev is_AsBytes evs = length batch * count_ev is_AppendRows evs)
           \<and> (rows_of env g batch = [] \<longrightarrow> count_ev is_AppendRows evs = 0)
           \<and> count_ev is_Metadata evs = 0
           \<and> count_ev is_NewManagedStream evs \<le> count_ev is_Lock evs
           \<and> count_ev is_Lock evs \<le> nat (maxRetries - rc)
           \<and> count_ev is_AppendRows evs \<le> count_ev is_Lock evs + 1))"

section \<open>Sample inputs\<close>

definition aborted_error :: lib_error where
  "aborted_error =
     \<lparr>status_FromError = Some Aborted, apierror_FromError = NoAPIError,
      googleapi_Code = None, Error_text = ''rpc error: code = Aborted''\<rparr>"

definition denied_error :: lib_error where
  "denied_error =
     \<lparr>status_FromError = Some PermissionDenied, apierror_FromError = NoAPIError,
      googleapi_Code = None, Error_text = ''rpc error: code = PermissionDenied''\<rparr>"

definition parse_error :: lib_error where
  "parse_error =
     \<lparr>status_FromError = None, apierror_FromError = NoAPIError,
      googleapi_Code = None, Error_text = ''proto: syntax error''\<rparr>"

definition sample_conf :: gcpBigQueryOutputConfig where
  "sample_conf =
     \<lparr>ProjectID = ''p'', DatasetID = ''d'', TableID = ''t'', AllowPartial = True,
      DiscardUnknown = True, CredentialsJSON = []\<rparr>"

text \<open>
  An environment in which every library call succeeds, except that the message
  \<open>Message 0\<close> has no bytes to give and that closing a closed handle panics. The
  message \<open>Message n\<close> becomes the row \<open>[n]\<close>.
\<close>

definition sample_env :: env where
  "sample_env =
     \<lparr>bq_NewClient = Inr 1, mw_NewClient = Inr 2, dataset_Metadata = None,
      table_Metadata = Inr (BQSchema 0),
      BQSchemaToStorageTableSchema = (\<lambda>s. Inr (StorageSchema 0)),
      StorageSchemaToProto2Descriptor = (\<lambda>s. Inr (Descriptor 0)),
      as_MessageDescriptor = (\<lambda>d. Some (MessageDescriptor 0)),
      NormalizeDescriptor = (\<lambda>d. Inr (DescriptorProto 0)),
      NewManagedStream = (\<lambda>k. Inr (10 + k)),
      AsBytes = (\<lambda>m. case m of Message n \<Rightarrow> if n = 0 then Inl parse_error else Inr [of_nat n]),
      Unmarshal = (\<lambda>opts md b. case b of [] \<Rightarrow> Inl parse_error | x # xs \<Rightarrow> Inr (DynamicMessage (unat x))),
      Marshal = (\<lambda>m. case m of DynamicMessage n \<Rightarrow> Inr [of_nat n]),
      AppendRows = (\<lambda>k. None),
      GetResult = (\<lambda>k. Inr NoStreamOffset),
      panics_on_closed = (\<lambda>r. True)\<rparr>"

text \<open>A connected sink, as a successful \<open>Connect\<close> in \<open>sample_env\<close> leaves it.\<close>

definition sample_sink :: gcpBigQueryOutput where
  "sample_sink =
     \<lparr>conf = sample_conf, client = Some 1, mwClient = Some 2, managedStream = Some 9,
      messageDescriptor = Some (MessageDescriptor 0),
      descriptorProto = Some (DescriptorProto 0),
      umo = \<lparr>umo_AllowPartial = True, umo_DiscardUnknown = True\<rparr>\<rparr>"

text \<open>
  Variants of the sample environment: every append call fails with the aborted status;
  only the first append call does; every append call is denied; every acknowledgement
  carries the offset 5.
\<close>

definition aborting_env :: env where
  "aborting_env = sample_env\<lparr>AppendRows := (\<lambda>k. Some aborted_error)\<rparr>"

definition abort_once_env :: env where
  "abort_once_env = sample_env\<lparr>AppendRows := (\<lambda>k. if k = 0 then Some aborted_error else None)\<rparr>"


section \<open>Auxiliary facts\<close>

lemma count_ev_Nil [simp]: "count_ev P [] = 0"
  by (simp add: count_ev_def)

lemma count_ev_Cons [simp]: "count_ev P (e # t) = (if P e then Suc (count_ev P t) else count_ev P t)"
  by (simp add: count_ev_def)

lemma count_ev_append [simp]: "count_ev P (t @ u) = count_ev P t + count_ev P u"
  by (simp add: count_ev_def)

lemma new_events_append [simp]: "new_events t (t @ evs) = evs"
  by (simp add: new_events_def)

lemma HasPrefix_iff: "HasPrefix s p \<longleftrightarrow> (\<exists>q. s = p @ q)"
  by (induction s p rule: HasPrefix.induct) auto

lemma Contains_iff: "Contains s sub \<longleftrightarrow> (\<exists>p q. s = p @ sub @ q)"
proof (induction s)
  case Nil
  then show ?case by auto
next
  case (Cons x xs)
  show ?case
  proof
    assume "Contains (x # xs) sub"
    then consider "HasPrefix (x # xs) sub" | "Contains xs sub" by auto
    then show "\<exists>p q. x # xs = p @ sub @ q"
    proof cases
      case 1
      then obtain q where "x # xs = sub @ q" by (auto simp: HasPrefix_iff)
      then have "x # xs = [] @ sub @ q" by simp
      then show ?thesis by blast
    next
      case 2
      then obtain p q where "xs = p @ sub @ q" using Cons.IH by blast
      then have "x # xs = (x # p) @ sub @ q" by simp
      then show ?thesis by blast
    qed
  next
    assume "\<exists>p q. x # xs = p @ sub @ q"
    then obtain p q where pq: "x # xs = p @ sub @ q" by blast
    show "Contains (x # xs) sub"
    proof (cases p)
      case Nil
      with pq have "HasPrefix (x # xs) sub" by (auto simp: HasPrefix_iff)
      then show ?thesis by simp
    next
      case (Cons y ys)
      with pq have "xs = ys @ sub @ q" by simp
      then have "Contains xs sub" using Cons.IH by blast
      then show ?thesis by simp
    qed
  qed
qed

lemma isReconnectable_iff: "isReconnectableError (Some e) = reconnect_worthy e"
  by (auto simp: isReconnectableError_def reconnect_worthy_def reconnect_codes_def
           split: option.splits code.splits apierror.splits)

lemma convert_one_fst: "fst (convert_one env g i m) = conv env g m"
  by (simp add: convert_one_def conv_def split: sum.splits)

lemma store_failed_fresh: "i \<notin> fst ` set xs \<Longrightarrow> store_failed i e xs = xs @ [(i, e)]"
  by (induction xs) auto


lemma convert_loop_Some:
  "\<forall>j \<in> fst ` set (failed be). j < i \<Longrightarrow>
   convert_loop env g batch i rest (Some be) rows t =
     (Some (be\<lparr>failed := failed be @ failures_from env g i rest\<rparr>),
      rows @ rows_of env g rest, t @ conv_events env g i rest)"
proof (induction rest arbitrary: i be rows t)
  case Nil
  then show ?case by simp
next
  case (Cons m rest)
  obtain r evs where co: "convert_one env g i m = (r, evs)" by (cases "convert_one env g i m")
  then have r: "conv env g m = r" using convert_one_fst [of env g i m] by simp
  show ?case
  proof (cases r)
    case (Inl err)
    have fresh: "i \<notin> fst ` set (failed be)" using Cons.prems by auto
    let ?be = "be\<lparr>failed := failed be @ [(i, err)]\<rparr>"
    have "\<forall>j \<in> fst ` set (failed ?be). j < i + 1" using Cons.prems by fastforce
    from Cons.IH [OF this] show ?thesis
      using co r Inl fresh by (simp add: setErr_def Failed_def store_failed_fresh)
  next
    case (Inr b)
    have "\<forall>j \<in> fst ` set (failed be). j < i + 1" using Cons.prems by fastforce
    from Cons.IH [OF this] show ?thesis
      using co r Inr by simp
  qed
qed

lemma convert_loop_None:
  "convert_loop env g batch i rest None rows t =
     (batch_error_of batch (failures_from env g i rest),
      rows @ rows_of env g rest, t @ conv_events env g i rest)"
proof (induction rest arbitrary: i rows t)
  case Nil
  then show ?case by (simp add: batch_error_of_def)
next
  case (Cons m rest)
  obtain r evs where co: "convert_one env g i m = (r, evs)" by (cases "convert_one env g i m")
  then have r: "conv env g m = r" using convert_one_fst [of env g i m] by simp
  show ?case
  proof (cases r)
    case (Inl err)
    let ?be = "\<lparr>headline = err, batch_len = length batch, failed = [(i, err)]\<rparr>"
    have "\<forall>j \<in> fst ` set (failed ?be). j < i + 1" by simp
    from convert_loop_Some [OF this] show ?thesis
      using co r Inl by (simp add: setErr_def Failed_def NewBatchError_def batch_error_of_def)
  next
    case (Inr b)
    then show ?thesis using co r Cons.IH by simp
  qed
qed

lemma convert_one_events:
  "count_ev is_AsBytes (snd (convert_one env g i m)) = 1"
  "count_ev is_AppendRows (snd (convert_one env g i m)) = 0"
  "count_ev is_NewManagedStream (snd (convert_one env g i m)) = 0"
  "count_ev is_Metadata (snd (convert_one env g i m)) = 0"
  "count_ev is_Lock (snd (convert_one env g i m)) = 0"
  by (simp_all add: convert_one_def split: sum.splits)

lemma conv_events_counts:
  "count_ev is_AsBytes (conv_events env g i ms) = length ms"
  "count_ev is_AppendRows (conv_events env g i ms) = 0"
  "count_ev is_NewManagedStream (conv_events env g i ms) = 0"
  "count_ev is_Metadata (conv_events env g i ms) = 0"
  "count_ev is_Lock (conv_events env g i ms) = 0"
  by (induction ms arbitrary: i) (simp_all add: convert_one_events)

lemma conv_events_no_append: "AppendRowsCall s rows \<notin> set (conv_events env g i ms)"
  by (induction ms arbitrary: i) (auto simp: convert_one_def split: sum.splits)

lemma convert_one_frame:
  "umo g' = umo g \<Longrightarrow> messageDescriptor g' = messageDescriptor g \<Longrightarrow>
   convert_one env g' i m = convert_one env g i m"
  by (simp add: convert_one_def split: sum.splits)

lemma conv_frame:
  "umo g' = umo g \<Longrightarrow> messageDescriptor g' = messageDescriptor g \<Longrightarrow> conv env g' m = conv env g m"
  using convert_one_frame [of g' g env 0 m] by (simp add: conv_def)

lemma rows_of_frame:
  assumes "umo g' = umo g" "messageDescriptor g' = messageDescriptor g"
  shows "rows_of env g' ms = rows_of env g ms"
proof (induction ms)
  case Nil
  then show ?case by simp
next
  case (Cons m ms)
  then show ?case using conv_frame [OF assms, of env m] by (simp split: sum.splits)
qed


lemma conv_events_frame:
  assumes "umo g' = umo g" "messageDescriptor g' = messageDescriptor g"
  shows "conv_events env g' i ms = conv_events env g i ms"
proof (induction ms arbitrary: i)
  case Nil
  then show ?case by simp
next
  case (Cons m ms)
  then show ?case using convert_one_frame [OF assms, of env i m] by simp
qed






lemma reconnect_frame:
  assumes "reconnect env g t = (r, g', t')"
  shows "conf g' = conf g" "client g' = client g" "mwClient g' = mwClient g"
    "messageDescriptor g' = messageDescriptor g" "descriptorProto g' = descriptorProto g"
    "umo g' = umo g"
  using assms
  by (auto simp: reconnect_def Let_def split: option.splits sum.splits)

lemma reconnect_trace:
  assumes "reconnect env g t = (r, g', t')"
  shows "\<exists>evs. t' = t @ evs \<and> count_ev is_AppendRows evs = 0 \<and> count_ev is_AsBytes evs = 0
           \<and> count_ev is_Metadata evs = 0 \<and> count_ev is_Lock evs = 1
           \<and> count_ev is_NewManagedStream evs = (if mwClient g = None then 0 else 1)
           \<and> (\<forall>m a. NewManagedStreamCall m a \<in> set evs \<longrightarrow> a = (target (conf g), descriptorProto g))
           \<and> (\<forall>s rows. AppendRowsCall s rows \<notin> set evs)"
  using assms
  by (auto simp: reconnect_def Let_def split: option.splits sum.splits)

lemma reconnect_ok:
  assumes "mwClient g = Some m" "client g = Some c"
    "NewManagedStream env (count_ev is_NewManagedStream t) = Inr s"
  shows "\<exists>evs. reconnect env g t = (Return None, g\<lparr>managedStream := Some s\<rparr>, t @ evs)
           \<and> count_ev is_AppendRows evs = 0 \<and> count_ev is_NewManagedStream evs = 1
           \<and> count_ev is_Lock evs = 1 \<and> count_ev is_AsBytes evs = 0"
  using assms
  by (auto simp: reconnect_def Let_def split: option.splits sum.splits)

lemma attempt_index [simp]:
  "count_ev is_AppendRows (t @ RLock # RUnlock # conv_events env g i ms) = count_ev is_AppendRows t"
  by (simp add: conv_events_counts)

lemma wb_not_connected:
  "managedStream g = None \<Longrightarrow>
   writeBatchWithRetry env batch rc g t = (Return (Some ErrNotConnected), g, t @ [RLock, RUnlock])"
  by (subst writeBatchWithRetry.simps) simp

lemma wb_no_rows:
  "managedStream g = Some ms \<Longrightarrow> rows_of env g batch = [] \<Longrightarrow>
   writeBatchWithRetry env batch rc g t =
     (Return (map_option BatchErr (batch_error_of batch (failures_from env g 0 batch))), g,
      t @ [RLock, RUnlock] @ conv_events env g 0 batch)"
  by (subst writeBatchWithRetry.simps) (simp add: convert_loop_None Let_def conv_events_counts split: option.splits)

lemma wb_append_error_final:
  "managedStream g = Some ms \<Longrightarrow> rows_of env g batch \<noteq> [] \<Longrightarrow>
   AppendRows env (count_ev is_AppendRows t) = Some e \<Longrightarrow>
   \<not> (isReconnectableError (Some e) \<and> rc < maxRetries) \<Longrightarrow>
   writeBatchWithRetry env batch rc g t =
     (Return (Some (Lib e)), g,
      t @ [RLock, RUnlock] @ conv_events env g 0 batch @ [AppendRowsCall ms (rows_of env g batch)])"
  by (subst writeBatchWithRetry.simps) (auto simp: convert_loop_None Let_def conv_events_counts)

lemma wb_result_error_final:
  "managedStream g = Some ms \<Longrightarrow> rows_of env g batch \<noteq> [] \<Longrightarrow>
   AppendRows env (count_ev is_AppendRows t) = None \<Longrightarrow>
   GetResult env (count_ev is_AppendRows t) = Inl e \<Longrightarrow>
   \<not> (isReconnectableError (Some e) \<and> rc < maxRetries) \<Longrightarrow>
   writeBatchWithRetry env batch rc g t =
     (Return (Some (Lib e)), g,
      t @ [RLock, RUnlock] @ conv_events env g 0 batch
        @ [AppendRowsCall ms (rows_of env g batch), GetResultCall])"
  by (subst writeBatchWithRetry.simps) (auto simp: convert_loop_None Let_def conv_events_counts)

lemma wb_offset_mismatch:
  "managedStream g = Some ms \<Longrightarrow> rows_of env g batch \<noteq> [] \<Longrightarrow>
   AppendRows env (count_ev is_AppendRows t) = None \<Longrightarrow>
   GetResult env (count_ev is_AppendRows t) = Inr off \<Longrightarrow>
   off \<noteq> NoStreamOffset \<Longrightarrow>
   writeBatchWithRetry env batch rc g t =
     (Return (Some (OffsetMismatch off NoStreamOffset)), g,
      t @ [RLock, RUnlock] @ conv_events env g 0 batch
        @ [AppendRowsCall ms (rows_of env g batch), GetResultCall])"
  by (subst writeBatchWithRetry.simps) (simp add: convert_loop_None Let_def conv_events_counts)

lemma wb_acknowledged:
  "managedStream g = Some ms \<Longrightarrow> rows_of env g batch \<noteq> [] \<Longrightarrow>
   AppendRows env (count_ev is_AppendRows t) = None \<Longrightarrow>
   GetResult env (count_ev is_AppendRows t) = Inr NoStreamOffset \<Longrightarrow>
   writeBatchWithRetry env batch rc g t =
     (Return (map_option BatchErr (batch_error_of batch (failures_from env g 0 batch))), g,
      t @ [RLock, RUnlock] @ conv_events env g 0 batch
        @ [AppendRowsCall ms (rows_of env g batch), GetResultCall])"
  by (subst writeBatchWithRetry.simps) (simp add: convert_loop_None Let_def conv_events_counts split: option.splits)

lemma wb_append_error_retry:
  "managedStream g = Some ms \<Longrightarrow> rows_of env g batch \<noteq> [] \<Longrightarrow>
   AppendRows env (count_ev is_AppendRows t) = Some e \<Longrightarrow>
   isReconnectableError (Some e) \<Longrightarrow> rc < maxRetries \<Longrightarrow>
   writeBatchWithRetry env batch rc g t =
     (case reconnect env g (t @ [RLock, RUnlock] @ conv_events env g 0 batch
                              @ [AppendRowsCall ms (rows_of env g batch)]) of
        (Panic, g', t') \<Rightarrow> (Panic, g', t')
      | (Return (Some reconnectErr), g', t') \<Rightarrow>
          (Return (Some (Wrap ''connection error reconnect failed'' reconnectErr)), g', t')
      | (Return None, g', t') \<Rightarrow> writeBatchWithRetry env batch (rc + 1) g' t')"
  by (subst writeBatchWithRetry.simps) (simp add: convert_loop_None Let_def conv_events_counts)

lemma wb_result_error_retry:
  "managedStream g = Some ms \<Longrightarrow> rows_of env g batch \<noteq> [] \<Longrightarrow>
   AppendRows env (count_ev is_AppendRows t) = None \<Longrightarrow>
   GetResult env (count_ev is_AppendRows t) = Inl e \<Longrightarrow>
   isReconnectableError (Some e) \<Longrightarrow> rc < maxRetries \<Longrightarrow>
   writeBatchWithRetry env batch rc g t =
     (case reconnect env g (t @ [RLock, RUnlock] @ conv_events env g 0 batch
                              @ [AppendRowsCall ms (rows_of env g batch), GetResultCall]) of
        (Panic, g', t') \<Rightarrow> (Panic, g', t')
      | (Return (Some reconnectErr), g', t') \<Rightarrow>
          (Return (Some (Wrap ''connection error reconnect failed'' reconnectErr)), g', t')
      | (Return None, g', t') \<Rightarrow> writeBatchWithRetry env batch (rc + 1) g' t')"
  by (subst writeBatchWithRetry.simps) (simp add: convert_loop_None Let_def conv_events_counts)

lemma last_closed_none: "count_ev is_Closed t = 0 \<Longrightarrow> \<not> last_closed r h t"
  by (induction r h t rule: last_closed.induct) (auto split: if_splits)

lemma closed_before_none: "count_ev is_Closed t = 0 \<Longrightarrow> \<not> last_closed r h (rev t)"
proof -
  assume "count_ev is_Closed t = 0"
  then have "count_ev is_Closed (rev t) = 0"
    by (simp add: count_ev_def rev_filter [symmetric])
  from last_closed_none [OF this] show ?thesis .
qed

lemma Close_first:
  assumes "count_ev is_Closed t = 0"
  shows "Close env g t =
     (Return None, g\<lparr>client := None, managedStream := None\<rparr>,
      t @ [Lock]
        @ (case client g of Some c \<Rightarrow> [Closed ClientH c] | None \<Rightarrow> [])
        @ (case mwClient g of Some m \<Rightarrow> [Closed MWClientH m] | None \<Rightarrow> [])
        @ (case managedStream g of Some s \<Rightarrow> [Closed StreamH s] | None \<Rightarrow> [])
        @ [Unlock])"
  using closed_before_none [OF assms]
  by (cases g)
     (simp add: Close_def Close_mwClient_def Close_stream_def closed_before_def
           split: option.splits)

lemma Close_again:
  "Close sample_env (sample_sink\<lparr>client := None, managedStream := None\<rparr>)
     [Lock, Closed ClientH 1, Closed MWClientH 2, Closed StreamH 9, Unlock]
   = (Panic, sample_sink\<lparr>client := None, managedStream := None\<rparr>,
      [Lock, Closed ClientH 1, Closed MWClientH 2, Closed StreamH 9, Unlock,
       Lock, Closed MWClientH 2])"
  by (simp add: Close_def Close_mwClient_def Close_stream_def closed_before_def
        sample_env_def sample_sink_def)

lemma fatal_attempt:
  assumes fatal: "\<not> (isReconnectableError (Some e) \<and> rc < maxRetries)"
    and ms: "managedStream g = Some ms"
    and rows: "rows_of env g batch \<noteq> []"
    and att: "attempt_error env (count_ev is_AppendRows t) = Some e"
  shows "\<exists>t'. writeBatchWithRetry env batch rc g t = (Return (Some (Lib e)), g, t')
      \<and> count_ev is_AppendRows (new_events t t') = 1
      \<and> count_ev is_NewManagedStream (new_events t t') = 0
      \<and> count_ev is_Lock (new_events t t') = 0"
proof (cases "AppendRows env (count_ev is_AppendRows t)")
  case (Some e')
  with att have "e' = e" by (simp add: attempt_error_def)
  with Some wb_append_error_final [OF ms rows _ fatal] show ?thesis
    by (simp add: conv_events_counts)
next
  case None
  with att have "GetResult env (count_ev is_AppendRows t) = Inl e"
    by (simp add: attempt_error_def split: sum.splits)
  with wb_result_error_final [OF ms rows None _ fatal] show ?thesis
    by (simp add: conv_events_counts)
qed

lemma Connect_failure:
  assumes "Connect env g t = (Some err, g', t')"
  shows "g' = g \<and> (\<exists>evs. t' = t @ [Lock] @ evs @ [Unlock] \<and> held [] evs = []
            \<and> count_ev is_Lock evs = 0)"
  using assms
  by (auto simp: Connect_def Connect_body_def Let_def
           split: sum.splits option.splits prod.splits if_splits)

lemma Connect_success:
  assumes "Connect env g t = (None, g', t')"
  shows "\<exists>c m s md dp evs.
           g' = g\<lparr>client := Some c, mwClient := Some m, managedStream := Some s,
                  messageDescriptor := md, descriptorProto := dp\<rparr>
         \<and> t' = t @ [Lock] @ evs @ [Unlock]
         \<and> held [] evs = [(ClientH, c), (MWClientH, m), (StreamH, s)]
         \<and> count_ev is_Lock evs = 0 \<and> count_ev is_Closed evs = 0"
  using assms
  apply (auto simp: Connect_def Connect_body_def Let_def
              split: sum.splits option.splits prod.splits if_splits)
  apply (intro exI)
  apply (rule refl)
  done

lemma reconnect_session:
  assumes "reconnect env g t = (r, g', t')" "managedStream g' = Some s"
  shows "Opened StreamH s \<in> set (new_events t t')"
  using assms
  by (auto simp: reconnect_def Let_def new_events_def split: option.splits sum.splits)

lemma reconnects_invariant:
  assumes "reconnects env n g t = (g', t')"
  shows "conf g' = conf g \<and> messageDescriptor g' = messageDescriptor g
       \<and> descriptorProto g' = descriptorProto g \<and> mwClient g' = mwClient g
       \<and> (\<exists>evs. t' = t @ evs
            \<and> count_ev is_Metadata evs = 0
            \<and> count_ev is_NewManagedStream evs = (if mwClient g = None then 0 else n)
            \<and> (\<forall>m a. NewManagedStreamCall m a \<in> set evs \<longrightarrow> a = (target (conf g), descriptorProto g))
            \<and> (\<forall>s. 0 < n \<longrightarrow> managedStream g' = Some s \<longrightarrow> Opened StreamH s \<in> set evs))"
  using assms
proof (induction n arbitrary: g t)
  case 0
  then show ?case by simp
next
  case (Suc n)
  obtain r g1 t1 where rc: "reconnect env g t = (r, g1, t1)" by (cases "reconnect env g t")
  with Suc.prems have rest: "reconnects env n g1 t1 = (g', t')" by simp
  note fr = reconnect_frame [OF rc]
  from reconnect_trace [OF rc] obtain evs1 where
    e1: "t1 = t @ evs1" "count_ev is_Metadata evs1 = 0"
      "count_ev is_NewManagedStream evs1 = (if mwClient g = None then 0 else 1)"
      "\<forall>m a. NewManagedStreamCall m a \<in> set evs1 \<longrightarrow> a = (target (conf g), descriptorProto g)"
    by blast
  from Suc.IH [OF rest] obtain evs2 where
    ih: "conf g' = conf g1" "messageDescriptor g' = messageDescriptor g1"
      "descriptorProto g' = descriptorProto g1" "mwClient g' = mwClient g1"
      "t' = t1 @ evs2" "count_ev is_Metadata evs2 = 0"
      "count_ev is_NewManagedStream evs2 = (if mwClient g1 = None then 0 else n)"
      "\<forall>m a. NewManagedStreamCall m a \<in> set evs2 \<longrightarrow> a = (target (conf g1), descriptorProto g1)"
      "\<forall>s. 0 < n \<longrightarrow> managedStream g' = Some s \<longrightarrow> Opened StreamH s \<in> set evs2"
    by blast
  have sess: "\<forall>s. managedStream g' = Some s \<longrightarrow> Opened StreamH s \<in> set (evs1 @ evs2)"
  proof (cases n)
    case 0
    with rest have "g' = g1" by simp
    with reconnect_session [OF rc] e1(1) show ?thesis by auto
  next
    case (Suc k)
    with ih(9) show ?thesis by auto
  qed
  have "t' = t @ (evs1 @ evs2)" using e1(1) ih(5) by simp
  moreover have "count_ev is_Metadata (evs1 @ evs2) = 0" using e1(2) ih(6) by simp
  moreover have "count_ev is_NewManagedStream (evs1 @ evs2) = (if mwClient g = None then 0 else Suc n)"
    using e1(3) ih(7) fr(3) by simp
  moreover have "\<forall>m a. NewManagedStreamCall m a \<in> set (evs1 @ evs2)
                    \<longrightarrow> a = (target (conf g), descriptorProto g)"
    using e1(4) ih(8) fr(1) fr(5) by auto
  ultimately show ?case using fr ih(1-4) sess by (intro conjI exI [of _ "evs1 @ evs2"]) simp_all
qed

lemma attempt_error_cases:
  "attempt_error env k = Some e \<longleftrightarrow>
     AppendRows env k = Some e \<or> (AppendRows env k = None \<and> GetResult env k = Inl e)"
  "attempt_error env k = None \<longleftrightarrow>
     AppendRows env k = None \<and> (\<exists>off. GetResult env k = Inr off)"
  by (auto simp: attempt_error_def split: option.splits sum.splits)

lemma wb_error_final:
  assumes "managedStream g = Some ms" "rows_of env g batch \<noteq> []"
    "attempt_error env (count_ev is_AppendRows t) = Some e"
    "\<not> (isReconnectableError (Some e) \<and> rc < maxRetries)"
  shows "writeBatchWithRetry env batch rc g t = (Return (Some (Lib e)), g, attempt_trace env g batch ms t)"
proof (cases "AppendRows env (count_ev is_AppendRows t)")
  case None
  with assms(3) have "GetResult env (count_ev is_AppendRows t) = Inl e"
    by (simp add: attempt_error_cases)
  from wb_result_error_final [OF assms(1,2) None this assms(4)] None
  show ?thesis by (simp add: attempt_trace_def)
next
  case (Some e')
  with assms(3) have "AppendRows env (count_ev is_AppendRows t) = Some e"
    by (simp add: attempt_error_cases)
  from wb_append_error_final [OF assms(1,2) this assms(4)] this
  show ?thesis by (simp add: attempt_trace_def)
qed

lemma wb_error_retry:
  assumes "managedStream g = Some ms" "rows_of env g batch \<noteq> []"
    "attempt_error env (count_ev is_AppendRows t) = Some e"
    "isReconnectableError (Some e)" "rc < maxRetries"
  shows "writeBatchWithRetry env batch rc g t =
     (case reconnect env g (attempt_trace env g batch ms t) of
        (Return None, g', t') \<Rightarrow> writeBatchWithRetry env batch (rc + 1) g' t'
      | (r, g', t') \<Rightarrow> (reconnect_failed r, g', t'))"
proof (cases "AppendRows env (count_ev is_AppendRows t)")
  case None
  with assms(3) have "GetResult env (count_ev is_AppendRows t) = Inl e"
    by (simp add: attempt_error_cases)
  from wb_result_error_retry [OF assms(1,2) None this assms(4,5)] None
  show ?thesis
    by (simp add: attempt_trace_def reconnect_failed_def split: prod.splits result.splits option.splits)
next
  case (Some e')
  with assms(3) have "AppendRows env (count_ev is_AppendRows t) = Some e"
    by (simp add: attempt_error_cases)
  from wb_append_error_retry [OF assms(1,2) this assms(4,5)] this
  show ?thesis
    by (simp add: attempt_trace_def reconnect_failed_def split: prod.splits result.splits option.splits)
qed

lemma wb_no_error:
  assumes "managedStream g = Some ms" "rows_of env g batch \<noteq> []"
    "AppendRows env (count_ev is_AppendRows t) = None"
    "GetResult env (count_ev is_AppendRows t) = Inr off"
  shows "writeBatchWithRetry env batch rc g t =
     (Return (if off \<noteq> NoStreamOffset then Some (OffsetMismatch off NoStreamOffset)
              else map_option BatchErr (batch_error_of batch (failures_from env g 0 batch))),
      g, attempt_trace env g batch ms t)"
proof (cases "off = NoStreamOffset")
  case True
  with wb_acknowledged [OF assms(1,2,3)] assms(3,4) show ?thesis
    by (simp add: attempt_trace_def)
next
  case False
  with wb_offset_mismatch [OF assms(1,2,3,4)] assms(3) show ?thesis
    by (simp add: attempt_trace_def)
qed

lemma wb_induct [case_names not_connected no_rows final_error no_error reconnect_failed retry]:
  fixes Q :: "int \<Rightarrow> gcpBigQueryOutput \<Rightarrow> trace \<Rightarrow> go_error option result \<times> gcpBigQueryOutput \<times> trace \<Rightarrow> bool"
  assumes nc: "\<And>rc g t. managedStream g = None \<Longrightarrow>
                 Q rc g t (Return (Some ErrNotConnected), g, t @ [RLock, RUnlock])"
    and nr: "\<And>rc g t ms. managedStream g = Some ms \<Longrightarrow> rows_of env g batch = [] \<Longrightarrow>
                 Q rc g t (Return (map_option BatchErr (batch_error_of batch (failures_from env g 0 batch))),
                           g, t @ [RLock, RUnlock] @ conv_events env g 0 batch)"
    and fe: "\<And>rc g t ms e. managedStream g = Some ms \<Longrightarrow> rows_of env g batch \<noteq> [] \<Longrightarrow>
                 attempt_error env (count_ev is_AppendRows t) = Some e \<Longrightarrow>
                 \<not> (isReconnectableError (Some e) \<and> rc < maxRetries) \<Longrightarrow>
                 Q rc g t (Return (Some (Lib e)), g, attempt_trace env g batch ms t)"
    and ne: "\<And>rc g t ms off. managedStream g = Some ms \<Longrightarrow> rows_of env g batch \<noteq> [] \<Longrightarrow>
                 AppendRows env (count_ev is_AppendRows t) = None \<Longrightarrow>
                 GetResult env (count_ev is_AppendRows t) = Inr off \<Longrightarrow>
                 Q rc g t (Return (if off \<noteq> NoStreamOffset then Some (OffsetMismatch off NoStreamOffset)
                                   else map_option BatchErr (batch_error_of batch (failures_from env g 0 batch))),
                           g, attempt_trace env g batch ms t)"
    and rf: "\<And>rc g t ms e r g' t'. managedStream g = Some ms \<Longrightarrow> rows_of env g batch \<noteq> [] \<Longrightarrow>
                 attempt_error env (count_ev is_AppendRows t) = Some e \<Longrightarrow>
                 isReconnectableError (Some e) \<Longrightarrow> rc < maxRetries \<Longrightarrow>
                 reconnect env g (attempt_trace env g batch ms t) = (r, g', t') \<Longrightarrow>
                 r \<noteq> Return None \<Longrightarrow>
                 Q rc g t (reconnect_failed r, g', t')"
    and rt: "\<And>rc g t ms e g' t' res. managedStream g = Some ms \<Longrightarrow> rows_of env g batch \<noteq> [] \<Longrightarrow>
                 attempt_error env (count_ev is_AppendRows t) = Some e \<Longrightarrow>
                 isReconnectableError (Some e) \<Longrightarrow> rc < maxRetries \<Longrightarrow>
                 reconnect env g (attempt_trace env g batch ms t) = (Return None, g', t') \<Longrightarrow>
                 Q (rc + 1) g' t' res \<Longrightarrow> Q rc g t res"
  shows "Q rc g t (writeBatchWithRetry env batch rc g t)"
proof (induction "nat (maxRetries - rc)" arbitrary: rc g t rule: less_induct)
  case less
  show ?case
  proof (cases "managedStream g")
    case None
    then show ?thesis using nc by (simp add: wb_not_connected)
  next
    case (Some ms)
    show ?thesis
    proof (cases "rows_of env g batch = []")
      case True
      with Some show ?thesis using nr wb_no_rows [OF Some True] by simp
    next
      case rows: False
      show ?thesis
      proof (cases "attempt_error env (count_ev is_AppendRows t)")
        case None
        then obtain off where a: "AppendRows env (count_ev is_AppendRows t) = None"
          and r: "GetResult env (count_ev is_AppendRows t) = Inr off"
          by (auto simp: attempt_error_cases)
        from ne [OF Some rows a r] wb_no_error [OF Some rows a r] show ?thesis by simp
      next
        case att: (Some e)
        show ?thesis
        proof (cases "isReconnectableError (Some e) \<and> rc < maxRetries")
          case False
          from fe [OF Some rows att False] wb_error_final [OF Some rows att False]
          show ?thesis by simp
        next
          case True
          then have rw: "isReconnectableError (Some e)" and lt: "rc < maxRetries" by simp_all
          obtain r g' t' where rec: "reconnect env g (attempt_trace env g batch ms t) = (r, g', t')"
            by (cases "reconnect env g (attempt_trace env g batch ms t)")
          note eq = wb_error_retry [OF Some rows att rw lt]
          show ?thesis
          proof (cases "r = Return None")
            case True
            with rec eq have e2: "writeBatchWithRetry env batch rc g t
                = writeBatchWithRetry env batch (rc + 1) g' t'" by simp
            have "nat (maxRetries - (rc + 1)) < nat (maxRetries - rc)" using lt by simp
            from less [OF this]
            have "Q (rc + 1) g' t' (writeBatchWithRetry env batch (rc + 1) g' t')" .
            from rt [OF Some rows att rw lt _ this] rec True e2 show ?thesis by simp
          next
            case False
            with rec eq have "writeBatchWithRetry env batch rc g t = (reconnect_failed r, g', t')"
              by (auto split: result.splits option.splits)
            with rf [OF Some rows att rw lt rec False] show ?thesis by simp
          qed
        qed
      qed
    qed
  qed
qed

lemma attempt_trace_events:
  "\<exists>evs. attempt_trace env g batch ms t = t @ evs
      \<and> count_ev is_AppendRows evs = 1 \<and> count_ev is_AsBytes evs = length batch
      \<and> count_ev is_NewManagedStream evs = 0 \<and> count_ev is_Lock evs = 0
      \<and> count_ev is_Metadata evs = 0
      \<and> (\<forall>s rows. AppendRowsCall s rows \<in> set evs \<longrightarrow> rows = rows_of env g batch)"
  by (auto simp: attempt_trace_def conv_events_counts conv_events_no_append split: option.splits)

lemma reconnect_installs:
  "reconnect env g t = (Return None, g', t') \<Longrightarrow> managedStream g' \<noteq> None"
  by (auto simp: reconnect_def Let_def split: option.splits sum.splits)


lemma wb_run_facts: "run_facts env batch rc g t (writeBatchWithRetry env batch rc g t)"
proof (induction rule: wb_induct [where env = env and batch = batch])
  case (not_connected rc g t)
  then show ?case by (simp add: run_facts_def)
next
  case (no_rows rc g t ms)
  then show ?case by (simp add: run_facts_def conv_events_counts conv_events_no_append)
next
  case (final_error rc g t ms e)
  from attempt_trace_events [of env g batch ms t] final_error(2) show ?case
    by (auto simp: run_facts_def)
next
  case (no_error rc g t ms off)
  from attempt_trace_events [of env g batch ms t] no_error(2) show ?case
    by (auto simp: run_facts_def)
next
  case (reconnect_failed rc g t ms e r g' t')
  from attempt_trace_events [of env g batch ms t] obtain evs1 where
    a: "attempt_trace env g batch ms t = t @ evs1"
      "count_ev is_AppendRows evs1 = 1" "count_ev is_AsBytes evs1 = length batch"
      "count_ev is_NewManagedStream evs1 = 0" "count_ev is_Lock evs1 = 0"
      "count_ev is_Metadata evs1 = 0"
      "\<forall>s rows. AppendRowsCall s rows \<in> set evs1 \<longrightarrow> rows = rows_of env g batch"
    by blast
  note fr = reconnect_frame [OF reconnect_failed(6)]
  from reconnect_trace [OF reconnect_failed(6)] obtain evs2 where
    b: "t' = attempt_trace env g batch ms t @ evs2"
      "count_ev is_AppendRows evs2 = 0" "count_ev is_AsBytes evs2 = 0"
      "count_ev is_Metadata evs2 = 0" "count_ev is_Lock evs2 = 1"
      "count_ev is_NewManagedStream evs2 = (if mwClient g = None then 0 else 1)"
      "\<forall>s rows. AppendRowsCall s rows \<notin> set evs2"
    by blast
  have lt: "1 \<le> nat (maxRetries - rc)" using reconnect_failed(5) by simp
  have "t' = t @ (evs1 @ evs2)" using a(1) b(1) by simp
  moreover have "\<forall>s rows. AppendRowsCall s rows \<in> set (evs1 @ evs2) \<longrightarrow> rows = rows_of env g batch"
    using a(7) b(7) by auto
  moreover have "count_ev is_AsBytes (evs1 @ evs2) = length batch * count_ev is_AppendRows (evs1 @ evs2)"
    using a b by simp
  moreover have "count_ev is_Metadata (evs1 @ evs2) = 0" using a b by simp
  moreover have "count_ev is_NewManagedStream (evs1 @ evs2) \<le> count_ev is_Lock (evs1 @ evs2)"
    using a b by simp
  moreover have "count_ev is_Lock (evs1 @ evs2) \<le> nat (maxRetries - rc)" using a b lt by simp
  moreover have "count_ev is_AppendRows (evs1 @ evs2) \<le> count_ev is_Lock (evs1 @ evs2) + 1"
    using a b by simp
  ultimately show ?case using fr reconnect_failed(2)
    unfolding run_facts_def prod.case by (intro conjI exI [of _ "evs1 @ evs2"]) simp_all
next
  case (retry rc g t ms e g' t' res)
  obtain r g'' t'' where res: "res = (r, g'', t'')" by (cases res)
  from attempt_trace_events [of env g batch ms t] obtain evs1 where
    a: "attempt_trace env g batch ms t = t @ evs1"
      "count_ev is_AppendRows evs1 = 1" "count_ev is_AsBytes evs1 = length batch"
      "count_ev is_NewManagedStream evs1 = 0" "count_ev is_Lock evs1 = 0"
      "count_ev is_Metadata evs1 = 0"
      "\<forall>s rows. AppendRowsCall s rows \<in> set evs1 \<longrightarrow> rows = rows_of env g batch"
    by blast
  note fr = reconnect_frame [OF retry(6)]
  from reconnect_trace [OF retry(6)] obtain evs2 where
    b: "t' = attempt_trace env g batch ms t @ evs2"
      "count_ev is_AppendRows evs2 = 0" "count_ev is_AsBytes evs2 = 0"
      "count_ev is_Metadata evs2 = 0" "count_ev is_Lock evs2 = 1"
      "count_ev is_NewManagedStream evs2 = (if mwClient g = None then 0 else 1)"
      "\<forall>s rows. AppendRowsCall s rows \<notin> set evs2"
    by blast
  have rows: "rows_of env g' batch = rows_of env g batch"
    using rows_of_frame [OF fr(6) fr(4)] .
  have inst: "managedStream g' \<noteq> None" using reconnect_installs [OF retry(6)] .
  from retry(7) [unfolded run_facts_def res prod.case] rows inst retry(2) obtain evs3 where
    c: "umo g'' = umo g'" "messageDescriptor g'' = messageDescriptor g'"
      "descriptorProto g'' = descriptorProto g'" "conf g'' = conf g'"
      "client g'' = client g'" "mwClient g'' = mwClient g'"
      "t'' = t' @ evs3"
      "\<forall>s rows. AppendRowsCall s rows \<in> set evs3 \<longrightarrow> rows = rows_of env g batch"
      "count_ev is_AsBytes evs3 = length batch * count_ev is_AppendRows evs3"
      "count_ev is_Metadata evs3 = 0"
      "count_ev is_NewManagedStream evs3 \<le> count_ev is_Lock evs3"
      "count_ev is_Lock evs3 \<le> nat (maxRetries - (rc + 1))"
      "count_ev is_AppendRows evs3 \<le> count_ev is_Lock evs3 + 1"
    by auto
  have lt: "nat (maxRetries - (rc + 1)) + 1 \<le> nat (maxRetries - rc)" using retry(5) by simp
  let ?evs = "evs1 @ evs2 @ evs3"
  have "t'' = t @ ?evs" using a(1) b(1) c(7) by simp
  moreover have "\<forall>s rows. AppendRowsCall s rows \<in> set ?evs \<longrightarrow> rows = rows_of env g batch"
    using a(7) b(7) c(8) by auto
  moreover have "count_ev is_AsBytes ?evs = length batch * count_ev is_AppendRows ?evs"
    using a b c by (simp add: algebra_simps)
  moreover have "count_ev is_Metadata ?evs = 0" using a b c by simp
  moreover have "count_ev is_NewManagedStream ?evs \<le> count_ev is_Lock ?evs"
    using a b c by simp
  moreover have "count_ev is_Lock ?evs \<le> nat (maxRetries - rc)" using a b c lt by simp
  moreover have "count_ev is_AppendRows ?evs \<le> count_ev is_Lock ?evs + 1"
    using a b c by simp
  ultimately show ?case using fr c(1-6) retry(2)
    unfolding run_facts_def res prod.case by (intro conjI exI [of _ ?evs]) simp_all
qed




lemma retry_step:
  assumes ms: "managedStream g = Some ms" and mw: "mwClient g = Some m" and cl: "client g = Some c"
    and rows: "rows_of env g batch \<noteq> []"
    and att: "attempt_error env (count_ev is_AppendRows t) = Some e"
    and rw: "isReconnectableError (Some e)" and lt: "rc < maxRetries"
    and ns: "NewManagedStream env (count_ev is_NewManagedStream t) = Inr s"
  shows "\<exists>evs. writeBatchWithRetry env batch rc g t
                 = writeBatchWithRetry env batch (rc + 1) (g\<lparr>managedStream := Some s\<rparr>) (t @ evs)
             \<and> count_ev is_AppendRows evs = 1 \<and> count_ev is_NewManagedStream evs = 1
             \<and> count_ev is_Lock evs = 1"
proof -
  from attempt_trace_events [of env g batch ms t] obtain evs1 where
    a: "attempt_trace env g batch ms t = t @ evs1"
      "count_ev is_AppendRows evs1 = 1" "count_ev is_NewManagedStream evs1 = 0"
      "count_ev is_Lock evs1 = 0"
    by blast
  have "NewManagedStream env (count_ev is_NewManagedStream (attempt_trace env g batch ms t)) = Inr s"
    using ns a by simp
  from reconnect_ok [OF mw cl this] obtain evs2 where
    b: "reconnect env g (attempt_trace env g batch ms t)
          = (Return None, g\<lparr>managedStream := Some s\<rparr>, attempt_trace env g batch ms t @ evs2)"
      "count_ev is_AppendRows evs2 = 0" "count_ev is_NewManagedStream evs2 = 1"
      "count_ev is_Lock evs2 = 1"
    by blast
  have "writeBatchWithRetry env batch rc g t
          = writeBatchWithRetry env batch (rc + 1) (g\<lparr>managedStream := Some s\<rparr>) (t @ (evs1 @ evs2))"
    using wb_error_retry [OF ms rows att rw lt] b(1) a(1) by simp
  moreover have "count_ev is_AppendRows (evs1 @ evs2) = 1" using a b by simp
  moreover have "count_ev is_NewManagedStream (evs1 @ evs2) = 1" using a b by simp
  moreover have "count_ev is_Lock (evs1 @ evs2) = 1" using a b by simp
  ultimately show ?thesis by blast
qed

lemma reconnect_ok_explicit:
  assumes "managedStream g = Some ms" "mwClient g = Some m" "client g = Some c"
    "NewManagedStream env (count_ev is_NewManagedStream t) = Inr s"
  shows "reconnect env g t =
     (Return None, g\<lparr>managedStream := Some s\<rparr>,
      t @ [Lock, Closed StreamH ms, Sleep,
           NewManagedStreamCall m (target (conf g), descriptorProto g),
           Opened StreamH s, Unlock])"
  using assms by (simp add: reconnect_def Let_def)




lemma conv_events_calls:
  "i < length ms \<Longrightarrow> AsBytesCall (j + i) \<in> set (conv_events env g j ms)"
  "i < length ms \<Longrightarrow> conv env g (ms ! i) = Inr b \<Longrightarrow>
     UnmarshalCall (j + i) \<in> set (conv_events env g j ms)
   \<and> MarshalCall (j + i) \<in> set (conv_events env g j ms)"
proof (induction ms arbitrary: i j)
  case Nil
  { case 1 then show ?case by simp }
  { case 2 then show ?case by simp }
next
  case (Cons m ms)
  { case 1
    show ?case
    proof (cases i)
      case 0
      then show ?thesis by (simp add: convert_one_def split: sum.splits)
    next
      case (Suc k)
      with 1 have "k < length ms" by simp
      from Cons.IH(1) [OF this, of "j + 1"] Suc show ?thesis by simp
    qed }
  { case 2
    show ?case
    proof (cases i)
      case 0
      with 2 have "conv env g m = Inr b" by simp
      then have "fst (convert_one env g j m) = Inr b" by (simp add: convert_one_fst)
      then have "snd (convert_one env g j m) = [AsBytesCall j, UnmarshalCall j, MarshalCall j]"
        by (auto simp: convert_one_def split: sum.splits)
      with 0 show ?thesis by simp
    next
      case (Suc k)
      with 2 have "k < length ms" "conv env g (ms ! k) = Inr b" by simp_all
      from Cons.IH(2) [OF this, of "j + 1"] Suc show ?thesis by simp
    qed }
qed

lemma wb_first_attempt:
  assumes ms: "managedStream g = Some ms" and rows: "rows_of env g batch \<noteq> []"
    and run: "writeBatchWithRetry env batch rc g t = (r, g', t')"
  shows "\<exists>rest. t' = attempt_trace env g batch ms t @ rest"
proof (cases "attempt_error env (count_ev is_AppendRows t)")
  case None
  then obtain off where "AppendRows env (count_ev is_AppendRows t) = None"
    "GetResult env (count_ev is_AppendRows t) = Inr off"
    by (auto simp: attempt_error_cases)
  from wb_no_error [OF ms rows this, of rc] run show ?thesis by simp
next
  case att: (Some e)
  show ?thesis
  proof (cases "isReconnectableError (Some e) \<and> rc < maxRetries")
    case False
    from wb_error_final [OF ms rows att False] run show ?thesis by simp
  next
    case True
    then have rw: "isReconnectableError (Some e)" and lt: "rc < maxRetries" by simp_all
    obtain r0 g1 t1 where rec: "reconnect env g (attempt_trace env g batch ms t) = (r0, g1, t1)"
      by (cases "reconnect env g (attempt_trace env g batch ms t)")
    from reconnect_trace [OF rec] obtain evs where t1: "t1 = attempt_trace env g batch ms t @ evs"
      by blast
    note eq = wb_error_retry [OF ms rows att rw lt]
    show ?thesis
    proof (cases "r0 = Return None")
      case True
      with rec eq run have r2: "writeBatchWithRetry env batch (rc + 1) g1 t1 = (r, g', t')" by simp
      from wb_run_facts [of env batch "rc + 1" g1 t1] r2 obtain evs2 where "t' = t1 @ evs2"
        by (auto simp: run_facts_def)
      with t1 show ?thesis by simp
    next
      case False
      with rec eq run have "t' = t1" by (auto split: result.splits option.splits)
      with t1 show ?thesis by simp
    qed
  qed
qed



lemma Connect_iff:
  assumes "Connect env g t = (err, g', t')"
  shows "err = None \<longleftrightarrow>
           (\<exists>c m schema md dp s.
              bq_NewClient env = Inr c \<and> mw_NewClient env = Inr m
            \<and> dataset_Metadata env = None \<and> table_Metadata env = Inr schema
            \<and> getDescriptor env schema = (md, dp, None)
            \<and> NewManagedStream env (count_ev is_NewManagedStream t) = Inr s)"
  using assms
  by (auto simp: Connect_def Connect_body_def Let_def
           split: sum.splits option.splits prod.splits if_splits)

lemma Connect_failure_handles:
  assumes "Connect env g t = (Some e, g', t')"
  shows "\<exists>evs. t' = t @ [Lock] @ evs @ [Unlock]
           \<and> (\<forall>c. bq_NewClient env = Inr c \<longrightarrow>
                  Opened ClientH c \<in> set evs \<and> Closed ClientH c \<in> set evs)
           \<and> (\<forall>c m. bq_NewClient env = Inr c \<longrightarrow> mw_NewClient env = Inr m \<longrightarrow>
                  Opened MWClientH m \<in> set evs \<and> Closed MWClientH m \<in> set evs)
           \<and> (\<forall>s. Opened StreamH s \<notin> set evs)
           \<and> held [] evs = [] \<and> count_ev is_Lock evs = 0"
  using assms
  by (auto simp: Connect_def Connect_body_def Let_def
           split: sum.splits option.splits prod.splits if_splits)

lemma Connect_success_exact:
  assumes "Connect env g t = (None, g', t')"
  shows "\<exists>c m schema md dp s.
           bq_NewClient env = Inr c \<and> mw_NewClient env = Inr m
         \<and> dataset_Metadata env = None \<and> table_Metadata env = Inr schema
         \<and> getDescriptor env schema = (md, dp, None)
         \<and> NewManagedStream env (count_ev is_NewManagedStream t) = Inr s
         \<and> g' = g\<lparr>client := Some c, mwClient := Some m, managedStream := Some s,
                  messageDescriptor := md, descriptorProto := dp\<rparr>
         \<and> t' = t @ [Lock, Opened ClientH c, Opened MWClientH m, DatasetMetadata, TableMetadata,
                      NewManagedStreamCall m (target (conf g), dp), Opened StreamH s, Unlock]"
  using assms
  by (auto simp: Connect_def Connect_body_def Let_def
           split: sum.splits option.splits prod.splits if_splits)

section \<open>The claims\<close>

text \<open>
  C3. If no write session is active (the stream handle is nil), the batch append returns
  the framework's not-connected error at once: the sink is unchanged, the only events
  are taking and releasing the read lock, no append call is made and nothing panics.
\<close>

theorem not_connected_guard:
  assumes "managedStream g = None"
  shows "writeBatchWithRetry env batch rc g t = (Return (Some ErrNotConnected), g, t @ [RLock, RUnlock])
       \<and> WriteBatch env batch g t = (Return (Some ErrNotConnected), g, t @ [RLock, RUnlock])
       \<and> count_ev is_AppendRows (new_events t (t @ [RLock, RUnlock])) = 0"
  using assms by (simp add: WriteBatch_def wb_not_connected)

theorem not_connected_guard_witness:
  "managedStream (newGCPBigQueryOutput sample_conf) = None
   \<and> WriteBatch sample_env [Message 1] (newGCPBigQueryOutput sample_conf) []
       = (Return (Some ErrNotConnected), newGCPBigQueryOutput sample_conf, [RLock, RUnlock])"
  using not_connected_guard [of "newGCPBigQueryOutput sample_conf" sample_env "[Message 1]" 0 "[]"]
  by (simp add: newGCPBigQueryOutput_def)

text \<open>
  C5. When the append call and the acknowledgement both succeed and the acknowledged
  offset is not the "no explicit offset" sentinel, the batch append returns the
  offset-mismatch error; it does so at any retry count, after exactly one append call
  and without any reconnect (no stream is opened, the exclusive lock is not taken).
\<close>

theorem offset_mismatch_fatal:
  assumes "managedStream g = Some ms"
    and "rows_of env g batch \<noteq> []"
    and "AppendRows env (count_ev is_AppendRows t) = None"
    and "GetResult env (count_ev is_AppendRows t) = Inr off"
    and "off \<noteq> NoStreamOffset"
  shows "\<exists>t'. writeBatchWithRetry env batch rc g t
                = (Return (Some (OffsetMismatch off NoStreamOffset)), g, t')
            \<and> count_ev is_AppendRows (new_events t t') = 1
            \<and> count_ev is_NewManagedStream (new_events t t') = 0
            \<and> count_ev is_Lock (new_events t t') = 0"
  using wb_offset_mismatch [OF assms, where rc = rc]
  by (simp add: conv_events_counts)

theorem offset_mismatch_fatal_witness:
  "managedStream sample_sink = Some 9
   \<and> rows_of (sample_env\<lparr>GetResult := \<lambda>k. Inr 5\<rparr>) sample_sink [Message 1] \<noteq> []
   \<and> (5 :: int64) \<noteq> NoStreamOffset
   \<and> (\<exists>t'. writeBatchWithRetry (sample_env\<lparr>GetResult := \<lambda>k. Inr 5\<rparr>) [Message 1] 0 sample_sink []
                = (Return (Some (OffsetMismatch 5 NoStreamOffset)), sample_sink, t')
            \<and> count_ev is_AppendRows (new_events [] t') = 1
            \<and> count_ev is_NewManagedStream (new_events [] t') = 0
            \<and> count_ev is_Lock (new_events [] t') = 0)"
proof -
  let ?env = "sample_env\<lparr>GetResult := \<lambda>k. Inr 5\<rparr>"
  have h1: "managedStream sample_sink = Some 9" by (simp add: sample_sink_def)
  have h2: "rows_of ?env sample_sink [Message 1] \<noteq> []"
    by (simp add: conv_def convert_one_def sample_env_def sample_sink_def)
  have h3: "AppendRows ?env (count_ev is_AppendRows []) = None" by (simp add: sample_env_def)
  have h4: "GetResult ?env (count_ev is_AppendRows []) = Inr 5" by simp
  have h5: "(5 :: int64) \<noteq> NoStreamOffset" by (simp add: NoStreamOffset_def)
  from offset_mismatch_fatal [OF h1 h2 h3 h4 h5, of 0] h1 h2 h5 show ?thesis by simp
qed

text \<open>
  C10. When at least one message failed conversion, at least one row was converted, the
  append and the acknowledgement succeed and the offset is not the sentinel, the call
  returns the offset-mismatch error alone: the conversion loop has built a batch error
  holding the per-item failures, and the returned error is not that batch error.
\<close>

theorem offset_mismatch_drops_item_errors:
  assumes "managedStream g = Some ms"
    and "failures_from env g 0 batch \<noteq> []"
    and "rows_of env g batch \<noteq> []"
    and "AppendRows env (count_ev is_AppendRows t) = None"
    and "GetResult env (count_ev is_AppendRows t) = Inr off"
    and "off \<noteq> NoStreamOffset"
  shows "\<exists>be rows t2 t'.
           convert_loop env g batch 0 batch None [] (t @ [RLock, RUnlock]) = (Some be, rows, t2)
         \<and> failed be = failures_from env g 0 batch
         \<and> writeBatchWithRetry env batch rc g t
             = (Return (Some (OffsetMismatch off NoStreamOffset)), g, t')
         \<and> OffsetMismatch off NoStreamOffset \<noteq> BatchErr be"
proof -
  obtain f fs where fs: "failures_from env g 0 batch = f # fs"
    using assms(2) by (cases "failures_from env g 0 batch") auto
  have "convert_loop env g batch 0 batch None [] (t @ [RLock, RUnlock])
          = (Some \<lparr>headline = snd f, batch_len = length batch, failed = f # fs\<rparr>,
             rows_of env g batch, t @ [RLock, RUnlock] @ conv_events env g 0 batch)"
    by (simp add: convert_loop_None batch_error_of_def fs)
  moreover note wb_offset_mismatch [OF assms(1) assms(3) assms(4) assms(5) assms(6), where rc = rc]
  ultimately show ?thesis using fs by simp
qed

theorem offset_mismatch_drops_item_errors_witness:
  "failures_from (sample_env\<lparr>GetResult := \<lambda>k. Inr 5\<rparr>) sample_sink 0 [Message 1, Message 0]
     = [(1, parse_error)]
   \<and> rows_of (sample_env\<lparr>GetResult := \<lambda>k. Inr 5\<rparr>) sample_sink [Message 1, Message 0] = [[1]]
   \<and> fst (writeBatchWithRetry (sample_env\<lparr>GetResult := \<lambda>k. Inr 5\<rparr>) [Message 1, Message 0] 0
            sample_sink [])
       = Return (Some (OffsetMismatch 5 NoStreamOffset))"
proof -
  let ?env = "sample_env\<lparr>GetResult := \<lambda>k. Inr 5\<rparr>"
  let ?batch = "[Message 1, Message 0]"
  have h1: "managedStream sample_sink = Some 9" by (simp add: sample_sink_def)
  have f: "failures_from ?env sample_sink 0 ?batch = [(1, parse_error)]"
    by (simp add: conv_def convert_one_def sample_env_def sample_sink_def)
  have r: "rows_of ?env sample_sink ?batch = [[1]]"
    by (simp add: conv_def convert_one_def sample_env_def sample_sink_def)
  have h2: "failures_from ?env sample_sink 0 ?batch \<noteq> []" using f by simp
  have h3: "rows_of ?env sample_sink ?batch \<noteq> []" using r by simp
  have h4: "AppendRows ?env (count_ev is_AppendRows []) = None" by (simp add: sample_env_def)
  have h5: "GetResult ?env (count_ev is_AppendRows []) = Inr 5" by simp
  have h6: "(5 :: int64) \<noteq> NoStreamOffset" by (simp add: NoStreamOffset_def)
  from offset_mismatch_drops_item_errors [OF h1 h2 h3 h4 h5 h6, of 0] f r
  show ?thesis by auto
qed

text \<open>
  C2. An append or acknowledgement error is classified reconnect-worthy exactly when it
  carries one of the status codes aborted, unavailable, internal, deadline-exceeded, or
  is a structured API error whose cause carries one of them, or its text contains
  "connection TTL" and "exceeded", or "server_shutting_down". Any other error of an
  append attempt is returned to the caller as it is, after that one append call and
  with no reconnect.
\<close>

theorem error_classification:
  "isReconnectableError (Some e) = reconnect_worthy e
   \<and> (\<not> reconnect_worthy e \<longrightarrow> managedStream g = Some ms \<longrightarrow> rows_of env g batch \<noteq> [] \<longrightarrow>
        attempt_error env (count_ev is_AppendRows t) = Some e \<longrightarrow>
        (\<exists>t'. writeBatchWithRetry env batch rc g t = (Return (Some (Lib e)), g, t')
           \<and> count_ev is_AppendRows (new_events t t') = 1
           \<and> count_ev is_NewManagedStream (new_events t t') = 0
           \<and> count_ev is_Lock (new_events t t') = 0))"
  using fatal_attempt [of e rc g ms env batch t] by (simp add: isReconnectable_iff)

theorem error_classification_witness:
  "isReconnectableError (Some aborted_error)
   \<and> \<not> isReconnectableError (Some denied_error)
   \<and> \<not> reconnect_worthy denied_error
   \<and> managedStream sample_sink = Some 9
   \<and> rows_of (sample_env\<lparr>AppendRows := \<lambda>k. Some denied_error\<rparr>) sample_sink [Message 1] \<noteq> []
   \<and> attempt_error (sample_env\<lparr>AppendRows := \<lambda>k. Some denied_error\<rparr>) (count_ev is_AppendRows [])
       = Some denied_error
   \<and> (\<exists>t'. writeBatchWithRetry (sample_env\<lparr>AppendRows := \<lambda>k. Some denied_error\<rparr>) [Message 1] 0
               sample_sink []
             = (Return (Some (Lib denied_error)), sample_sink, t')
           \<and> count_ev is_AppendRows (new_events [] t') = 1
           \<and> count_ev is_NewManagedStream (new_events [] t') = 0
           \<and> count_ev is_Lock (new_events [] t') = 0)"
proof -
  let ?env = "sample_env\<lparr>AppendRows := \<lambda>k. Some denied_error\<rparr>"
  have a: "reconnect_worthy aborted_error"
    by (simp add: reconnect_worthy_def aborted_error_def reconnect_codes_def)
  have d: "\<not> reconnect_worthy denied_error"
    by (simp add: reconnect_worthy_def denied_error_def reconnect_codes_def)
  have h1: "managedStream sample_sink = Some 9" by (simp add: sample_sink_def)
  have h2: "rows_of ?env sample_sink [Message 1] \<noteq> []"
    by (simp add: conv_def convert_one_def sample_env_def sample_sink_def)
  have h3: "attempt_error ?env (count_ev is_AppendRows []) = Some denied_error"
    by (simp add: attempt_error_def)
  from error_classification [of aborted_error sample_sink 9 ?env "[Message 1]" "[]" 0]
    error_classification [of denied_error sample_sink 9 ?env "[Message 1]" "[]" 0]
    a d h1 h2 h3
  show ?thesis by simp
qed

text \<open>
  C9. Closing the sink takes the exclusive lock once, closes the three handles it holds
  and returns nil, but it does not nil the write-client field: the branch that closes
  the write client assigns nil to the metadata-client field a second time. At the
  connected sample sink the write-client field still holds the closed handle afterwards.
\<close>

theorem Close_keeps_mwClient:
  "Close env sample_sink []
     = (Return None, sample_sink\<lparr>client := None, managedStream := None\<rparr>,
        [Lock, Closed ClientH 1, Closed MWClientH 2, Closed StreamH 9, Unlock])
   \<and> mwClient (fst (snd (Close env sample_sink []))) = Some 2"
  by (simp add: Close_first sample_sink_def)

text \<open>
  C6. Any number of reconnects in a row leaves the cached schema descriptors and the
  target configuration untouched and fetches no dataset or table metadata; every stream
  they open is opened for the same target with the cached descriptor, one per
  reconnect, and a stream that is installed afterwards is one of those.
\<close>

theorem reconnect_reuses_cached_schema:
  assumes "reconnects env n g t = (g', t')"
  shows "descriptorProto g' = descriptorProto g \<and> messageDescriptor g' = messageDescriptor g
       \<and> conf g' = conf g
       \<and> (\<exists>evs. t' = t @ evs
            \<and> count_ev is_Metadata evs = 0
            \<and> count_ev is_NewManagedStream evs = (if mwClient g = None then 0 else n)
            \<and> (\<forall>m a. NewManagedStreamCall m a \<in> set evs \<longrightarrow> a = (target (conf g), descriptorProto g))
            \<and> (\<forall>s. 0 < n \<longrightarrow> managedStream g' = Some s \<longrightarrow> Opened StreamH s \<in> set evs))"
  using reconnects_invariant [OF assms] by simp

theorem reconnect_reuses_cached_schema_witness:
  "reconnects sample_env 2 sample_sink []
     = (sample_sink\<lparr>managedStream := Some 11\<rparr>,
        [Lock, Closed StreamH 9, Sleep,
         NewManagedStreamCall 2 ((''p'', ''d'', ''t''), Some (DescriptorProto 0)),
         Opened StreamH 10, Unlock,
         Lock, Closed StreamH 10, Sleep,
         NewManagedStreamCall 2 ((''p'', ''d'', ''t''), Some (DescriptorProto 0)),
         Opened StreamH 11, Unlock])
   \<and> descriptorProto (sample_sink\<lparr>managedStream := Some 11\<rparr>) = descriptorProto sample_sink
   \<and> target (conf sample_sink) = (''p'', ''d'', ''t'')"
proof -
  have two: "(2::nat) = Suc (Suc 0)" by simp
  have run: "reconnects sample_env 2 sample_sink []
     = (sample_sink\<lparr>managedStream := Some 11\<rparr>,
        [Lock, Closed StreamH 9, Sleep,
         NewManagedStreamCall 2 ((''p'', ''d'', ''t''), Some (DescriptorProto 0)),
         Opened StreamH 10, Unlock,
         Lock, Closed StreamH 10, Sleep,
         NewManagedStreamCall 2 ((''p'', ''d'', ''t''), Some (DescriptorProto 0)),
         Opened StreamH 11, Unlock])"
    unfolding two
    by (simp add: reconnect_def sample_env_def sample_sink_def sample_conf_def target_def)
  from reconnect_reuses_cached_schema [OF run] run show ?thesis
    by (simp add: sample_sink_def sample_conf_def target_def)
qed

text \<open>
  C1. On a connected sink with at least one converted row, when every append attempt
  fails (at the append call or at the acknowledgement) with an error classified
  reconnect-worthy and the reconnects themselves succeed, the batch append makes
  exactly three append calls and exactly two reconnects (two streams opened, the
  exclusive lock taken twice), and returns the error of the third attempt as it is.
\<close>

theorem retry_ceiling:
  assumes conn: "managedStream g = Some ms" "mwClient g = Some m" "client g = Some c"
    and rows: "rows_of env g batch \<noteq> []"
    and fail: "\<forall>n<3. \<exists>e. attempt_error env (count_ev is_AppendRows t + n) = Some e
                         \<and> isReconnectableError (Some e)"
    and reco: "\<forall>n<2. \<exists>s. NewManagedStream env (count_ev is_NewManagedStream t + n) = Inr s"
  shows "\<exists>e g' t'. attempt_error env (count_ev is_AppendRows t + 2) = Some e
           \<and> WriteBatch env batch g t = (Return (Some (Lib e)), g', t')
           \<and> count_ev is_AppendRows (new_events t t') = 3
           \<and> count_ev is_NewManagedStream (new_events t t') = 2
           \<and> count_ev is_Lock (new_events t t') = 2"
proof -
  from fail obtain e0 e1 e2 where
    e0: "attempt_error env (count_ev is_AppendRows t) = Some e0" "isReconnectableError (Some e0)"
    and e1: "attempt_error env (count_ev is_AppendRows t + 1) = Some e1" "isReconnectableError (Some e1)"
    and e2: "attempt_error env (count_ev is_AppendRows t + 2) = Some e2"
  proof -
    from fail have "\<exists>e. attempt_error env (count_ev is_AppendRows t + 0) = Some e \<and> isReconnectableError (Some e)"
      by (rule allE [of _ 0]) simp
    moreover from fail have "\<exists>e. attempt_error env (count_ev is_AppendRows t + 1) = Some e \<and> isReconnectableError (Some e)"
      by (rule allE [of _ 1]) simp
    moreover from fail have "\<exists>e. attempt_error env (count_ev is_AppendRows t + 2) = Some e \<and> isReconnectableError (Some e)"
      by (rule allE [of _ 2]) simp
    ultimately show ?thesis using that by auto
  qed
  from reco obtain s0 s1 where
    s0: "NewManagedStream env (count_ev is_NewManagedStream t) = Inr s0"
    and s1: "NewManagedStream env (count_ev is_NewManagedStream t + 1) = Inr s1"
  proof -
    from reco have "\<exists>s. NewManagedStream env (count_ev is_NewManagedStream t + 0) = Inr s"
      by (rule allE [of _ 0]) simp
    moreover from reco have "\<exists>s. NewManagedStream env (count_ev is_NewManagedStream t + 1) = Inr s"
      by (rule allE [of _ 1]) simp
    ultimately show ?thesis using that by auto
  qed
  let ?g1 = "g\<lparr>managedStream := Some s0\<rparr>"
  let ?g2 = "?g1\<lparr>managedStream := Some s1\<rparr>"
  have lt0: "(0::int) < maxRetries" and lt1: "(0::int) + 1 < maxRetries"
    by (simp_all add: maxRetries_def)
  from retry_step [OF conn rows e0 lt0 s0] obtain evs1 where
    st1: "writeBatchWithRetry env batch 0 g t = writeBatchWithRetry env batch (0 + 1) ?g1 (t @ evs1)"
      "count_ev is_AppendRows evs1 = 1" "count_ev is_NewManagedStream evs1 = 1"
      "count_ev is_Lock evs1 = 1"
    by blast
  have c1: "managedStream ?g1 = Some s0" "mwClient ?g1 = Some m" "client ?g1 = Some c"
    using conn by simp_all
  have rows1: "rows_of env ?g1 batch \<noteq> []"
    using rows rows_of_frame [of ?g1 g env batch] by simp
  have e1': "attempt_error env (count_ev is_AppendRows (t @ evs1)) = Some e1"
    using e1(1) st1(2) by simp
  have s1': "NewManagedStream env (count_ev is_NewManagedStream (t @ evs1)) = Inr s1"
    using s1 st1(3) by simp
  from retry_step [OF c1 rows1 e1' e1(2) lt1 s1'] obtain evs2 where
    st2: "writeBatchWithRetry env batch (0 + 1) ?g1 (t @ evs1)
            = writeBatchWithRetry env batch (0 + 1 + 1) ?g2 ((t @ evs1) @ evs2)"
      "count_ev is_AppendRows evs2 = 1" "count_ev is_NewManagedStream evs2 = 1"
      "count_ev is_Lock evs2 = 1"
    by blast
  have c2: "managedStream ?g2 = Some s1" by simp
  have rows2: "rows_of env ?g2 batch \<noteq> []"
    using rows rows_of_frame [of ?g2 g env batch] by simp
  have e2': "attempt_error env (count_ev is_AppendRows ((t @ evs1) @ evs2)) = Some e2"
    using e2 st1(2) st2(2) by (simp add: add.assoc)
  have stop: "\<not> (isReconnectableError (Some e2) \<and> (0::int) + 1 + 1 < maxRetries)"
    by (simp add: maxRetries_def)
  from fatal_attempt [OF stop c2 rows2 e2'] obtain t' where
    st3: "writeBatchWithRetry env batch (0 + 1 + 1) ?g2 ((t @ evs1) @ evs2)
            = (Return (Some (Lib e2)), ?g2, t')"
      "count_ev is_AppendRows (new_events ((t @ evs1) @ evs2) t') = 1"
      "count_ev is_NewManagedStream (new_events ((t @ evs1) @ evs2) t') = 0"
      "count_ev is_Lock (new_events ((t @ evs1) @ evs2) t') = 0"
    by blast
  from wb_run_facts [of env batch "0 + 1 + 1" ?g2 "(t @ evs1) @ evs2"] st3(1)
  obtain evs3 where t': "t' = ((t @ evs1) @ evs2) @ evs3"
    by (auto simp: run_facts_def)
  have ne: "new_events t t' = evs1 @ evs2 @ evs3" using t' by (simp add: new_events_def)
  have c3: "count_ev is_AppendRows evs3 = 1" "count_ev is_NewManagedStream evs3 = 0"
    "count_ev is_Lock evs3 = 0"
    using st3(2-4) t' by (simp_all add: new_events_def)
  have "WriteBatch env batch g t = (Return (Some (Lib e2)), ?g2, t')"
    using st1(1) st2(1) st3(1) by (simp add: WriteBatch_def)
  moreover have "count_ev is_AppendRows (new_events t t') = 3"
    using ne st1 st2 c3 by simp
  moreover have "count_ev is_NewManagedStream (new_events t t') = 2"
    using ne st1 st2 c3 by simp
  moreover have "count_ev is_Lock (new_events t t') = 2"
    using ne st1 st2 c3 by simp
  ultimately show ?thesis using e2 by blast
qed

theorem retry_ceiling_witness:
  "managedStream sample_sink = Some 9 \<and> mwClient sample_sink = Some 2 \<and> client sample_sink = Some 1
   \<and> rows_of aborting_env sample_sink [Message 1] \<noteq> []
   \<and> attempt_error aborting_env 0 = Some aborted_error
   \<and> attempt_error aborting_env 1 = Some aborted_error
   \<and> attempt_error aborting_env 2 = Some aborted_error
   \<and> isReconnectableError (Some aborted_error)
   \<and> NewManagedStream aborting_env 0 = Inr 10
   \<and> NewManagedStream aborting_env 1 = Inr 11
   \<and> (\<exists>g' t'. WriteBatch aborting_env [Message 1] sample_sink [] = (Return (Some (Lib aborted_error)), g', t')
           \<and> count_ev is_AppendRows (new_events [] t') = 3
           \<and> count_ev is_NewManagedStream (new_events [] t') = 2
           \<and> count_ev is_Lock (new_events [] t') = 2)"
proof -
  have h1: "managedStream sample_sink = Some 9" "mwClient sample_sink = Some 2"
    "client sample_sink = Some 1" by (simp_all add: sample_sink_def)
  have h2: "rows_of aborting_env sample_sink [Message 1] \<noteq> []"
    by (simp add: conv_def convert_one_def aborting_env_def sample_env_def sample_sink_def)
  have ab: "isReconnectableError (Some aborted_error)"
    by (simp add: isReconnectableError_def aborted_error_def)
  have att: "\<And>k. attempt_error aborting_env k = Some aborted_error"
    by (simp add: attempt_error_def aborting_env_def)
  have h3: "\<forall>n<3. \<exists>e. attempt_error aborting_env (count_ev is_AppendRows [] + n) = Some e
                  \<and> isReconnectableError (Some e)"
    using ab att by simp
  have h4: "\<forall>n<2. \<exists>s. NewManagedStream aborting_env (count_ev is_NewManagedStream [] + n) = Inr s"
    by (simp add: aborting_env_def sample_env_def)
  have ns: "NewManagedStream aborting_env 0 = Inr 10" "NewManagedStream aborting_env 1 = Inr 11"
    by (simp_all add: aborting_env_def sample_env_def)
  from retry_ceiling [OF h1 h2 h3 h4] att ab ns h1 h2 show ?thesis by simp
qed

text \<open>
  C8. A connect attempt succeeds exactly when every step succeeds: both clients open,
  the dataset and the table lookups return, the descriptor derivation returns no error
  and the stream opens. A failing attempt leaves the sink as it was; between its one
  lock and one unlock it has closed the metadata client if that was opened and the
  write client if that was opened, no stream was opened, and no handle is left open.
  A succeeding attempt installs the metadata client, the write client, the stream and
  the two schema descriptors that the derivation returned for the table's schema,
  together, in that same locked section, and closes nothing.
\<close>

theorem connect_all_or_nothing:
  assumes "Connect env g t = (err, g', t')"
  shows "(err = None \<longleftrightarrow>
            (\<exists>c m schema md dp s.
               bq_NewClient env = Inr c \<and> mw_NewClient env = Inr m
             \<and> dataset_Metadata env = None \<and> table_Metadata env = Inr schema
             \<and> getDescriptor env schema = (md, dp, None)
             \<and> NewManagedStream env (count_ev is_NewManagedStream t) = Inr s))
       \<and> (err \<noteq> None \<longrightarrow>
            g' = g
          \<and> (\<exists>evs. t' = t @ [Lock] @ evs @ [Unlock]
                \<and> (\<forall>c. bq_NewClient env = Inr c \<longrightarrow>
                       Opened ClientH c \<in> set evs \<and> Closed ClientH c \<in> set evs)
                \<and> (\<forall>c m. bq_NewClient env = Inr c \<longrightarrow> mw_NewClient env = Inr m \<longrightarrow>
                       Opened MWClientH m \<in> set evs \<and> Closed MWClientH m \<in> set evs)
                \<and> (\<forall>s. Opened StreamH s \<notin> set evs)
                \<and> held [] evs = [] \<and> count_ev is_Lock evs = 0))
       \<and> (err = None \<longrightarrow>
            (\<exists>c m schema md dp s.
               bq_NewClient env = Inr c \<and> mw_NewClient env = Inr m
             \<and> dataset_Metadata env = None \<and> table_Metadata env = Inr schema
             \<and> getDescriptor env schema = (md, dp, None)
             \<and> NewManagedStream env (count_ev is_NewManagedStream t) = Inr s
             \<and> g' = g\<lparr>client := Some c, mwClient := Some m, managedStream := Some s,
                      messageDescriptor := md, descriptorProto := dp\<rparr>
             \<and> t' = t @ [Lock, Opened ClientH c, Opened MWClientH m, DatasetMetadata,
                          TableMetadata, NewManagedStreamCall m (target (conf g), dp),
                          Opened StreamH s, Unlock]))"
proof (intro conjI)
  show "err = None \<longleftrightarrow>
            (\<exists>c m schema md dp s.
               bq_NewClient env = Inr c \<and> mw_NewClient env = Inr m
             \<and> dataset_Metadata env = None \<and> table_Metadata env = Inr schema
             \<and> getDescriptor env schema = (md, dp, None)
             \<and> NewManagedStream env (count_ev is_NewManagedStream t) = Inr s)"
    by (rule Connect_iff [OF assms])
next
  show "err \<noteq> None \<longrightarrow>
            g' = g
          \<and> (\<exists>evs. t' = t @ [Lock] @ evs @ [Unlock]
                \<and> (\<forall>c. bq_NewClient env = Inr c \<longrightarrow>
                       Opened ClientH c \<in> set evs \<and> Closed ClientH c \<in> set evs)
                \<and> (\<forall>c m. bq_NewClient env = Inr c \<longrightarrow> mw_NewClient env = Inr m \<longrightarrow>
                       Opened MWClientH m \<in> set evs \<and> Closed MWClientH m \<in> set evs)
                \<and> (\<forall>s. Opened StreamH s \<notin> set evs)
                \<and> held [] evs = [] \<and> count_ev is_Lock evs = 0)"
  proof
    assume "err \<noteq> None"
    then obtain e where e: "err = Some e" by auto
    from Connect_failure [of env g t e g' t'] assms e have "g' = g" by simp
    moreover note Connect_failure_handles [of env g t e g' t']
    ultimately show "g' = g
          \<and> (\<exists>evs. t' = t @ [Lock] @ evs @ [Unlock]
                \<and> (\<forall>c. bq_NewClient env = Inr c \<longrightarrow>
                       Opened ClientH c \<in> set evs \<and> Closed ClientH c \<in> set evs)
                \<and> (\<forall>c m. bq_NewClient env = Inr c \<longrightarrow> mw_NewClient env = Inr m \<longrightarrow>
                       Opened MWClientH m \<in> set evs \<and> Closed MWClientH m \<in> set evs)
                \<and> (\<forall>s. Opened StreamH s \<notin> set evs)
                \<and> held [] evs = [] \<and> count_ev is_Lock evs = 0)"
      using assms e by simp
  qed
next
  show "err = None \<longrightarrow>
            (\<exists>c m schema md dp s.
               bq_NewClient env = Inr c \<and> mw_NewClient env = Inr m
             \<and> dataset_Metadata env = None \<and> table_Metadata env = Inr schema
             \<and> getDescriptor env schema = (md, dp, None)
             \<and> NewManagedStream env (count_ev is_NewManagedStream t) = Inr s
             \<and> g' = g\<lparr>client := Some c, mwClient := Some m, managedStream := Some s,
                      messageDescriptor := md, descriptorProto := dp\<rparr>
             \<and> t' = t @ [Lock, Opened ClientH c, Opened MWClientH m, DatasetMetadata,
                          TableMetadata, NewManagedStreamCall m (target (conf g), dp),
                          Opened StreamH s, Unlock])"
    using Connect_success_exact [of env g t g' t'] assms by simp
qed

theorem connect_all_or_nothing_witness:
  "Connect (sample_env\<lparr>NewManagedStream := \<lambda>k. Inl denied_error\<rparr>) (newGCPBigQueryOutput sample_conf) []
     = (Some (Wrap ''error creating BigQuery managed stream'' (Lib denied_error)),
        newGCPBigQueryOutput sample_conf,
        [Lock, Opened ClientH 1, Opened MWClientH 2, DatasetMetadata, TableMetadata,
         NewManagedStreamCall 2 ((''p'', ''d'', ''t''), Some (DescriptorProto 0)),
         Closed MWClientH 2, Closed ClientH 1, Unlock])
   \<and> held [] [Opened ClientH 1, Opened MWClientH 2, DatasetMetadata, TableMetadata,
         NewManagedStreamCall 2 ((''p'', ''d'', ''t''), Some (DescriptorProto 0)),
         Closed MWClientH 2, Closed ClientH 1] = []
   \<and> getDescriptor sample_env (BQSchema 0)
       = (Some (MessageDescriptor 0), Some (DescriptorProto 0), None)
   \<and> Connect sample_env (newGCPBigQueryOutput sample_conf) [] = (None, sample_sink\<lparr>managedStream := Some 10\<rparr>,
        [Lock, Opened ClientH 1, Opened MWClientH 2, DatasetMetadata, TableMetadata,
         NewManagedStreamCall 2 ((''p'', ''d'', ''t''), Some (DescriptorProto 0)),
         Opened StreamH 10, Unlock])"
proof -
  let ?env = "sample_env\<lparr>NewManagedStream := \<lambda>k. Inl denied_error\<rparr>"
  let ?g = "newGCPBigQueryOutput sample_conf"
  let ?evs = "[Opened ClientH 1, Opened MWClientH 2, DatasetMetadata, TableMetadata,
         NewManagedStreamCall 2 ((''p'', ''d'', ''t''), Some (DescriptorProto 0)),
         Closed MWClientH 2, Closed ClientH 1]"
  have run: "Connect ?env ?g [] = (Some (Wrap ''error creating BigQuery managed stream'' (Lib denied_error)),
        ?g, [Lock] @ ?evs @ [Unlock])"
    by (simp add: Connect_def Connect_body_def sample_env_def getDescriptor_def
          newGCPBigQueryOutput_def sample_conf_def target_def)
  have ok: "Connect sample_env ?g [] = (None, sample_sink\<lparr>managedStream := Some 10\<rparr>,
        [Lock, Opened ClientH 1, Opened MWClientH 2, DatasetMetadata, TableMetadata,
         NewManagedStreamCall 2 ((''p'', ''d'', ''t''), Some (DescriptorProto 0)),
         Opened StreamH 10, Unlock])"
    by (simp add: Connect_def Connect_body_def sample_env_def getDescriptor_def
          newGCPBigQueryOutput_def sample_conf_def target_def sample_sink_def)
  have gd: "getDescriptor sample_env (BQSchema 0)
       = (Some (MessageDescriptor 0), Some (DescriptorProto 0), None)"
    by (simp add: getDescriptor_def sample_env_def)
  from connect_all_or_nothing [OF run] connect_all_or_nothing [OF ok] run ok gd
  show ?thesis by simp
qed

text \<open>
  C7, as the specification states it, fails: the retry after a successful reconnect
  converts the batch again. With one message whose first append is aborted, the byte
  extraction, the unmarshalling and the marshalling of that message each run twice.
\<close>

theorem conversion_not_repeated_counterexample:
  "WriteBatch abort_once_env [Message 1] sample_sink []
     = (Return None, sample_sink\<lparr>managedStream := Some 10\<rparr>,
        [RLock, RUnlock, AsBytesCall 0, UnmarshalCall 0, MarshalCall 0,
         AppendRowsCall 9 [[1]],
         Lock, Closed StreamH 9, Sleep,
         NewManagedStreamCall 2 ((''p'', ''d'', ''t''), Some (DescriptorProto 0)),
         Opened StreamH 10, Unlock,
         RLock, RUnlock, AsBytesCall 0, UnmarshalCall 0, MarshalCall 0,
         AppendRowsCall 10 [[1]], GetResultCall])
   \<and> count_ev is_AsBytes (snd (snd (WriteBatch abort_once_env [Message 1] sample_sink []))) = 2
   \<and> length [Message 1] = 1"
  by (simp add: WriteBatch_def writeBatchWithRetry.simps abort_once_env_def sample_env_def
        sample_sink_def sample_conf_def convert_one_def isReconnectableError_def
        aborted_error_def maxRetries_def reconnect_def target_def NoStreamOffset_def)

text \<open>
  C7, amended. The retry is the whole batch write again, conversion included, against
  the new session. On a connected sink with at least one converted row: the conversion
  calls of one attempt are a byte extraction for every message and an unmarshalling and
  a marshalling for every message that converts; a call makes one byte extraction per
  message for each append call it issues, and all its append calls carry the same rows;
  and when the first attempt fails with a reconnect-worthy error below the retry ceiling
  and the reconnect opens the stream \<open>s\<close>, the trace of the call is the first attempt
  (read lock, the conversion calls, the append on the old stream, the result fetch if
  the append call succeeded), the reconnect (lock, close of the old stream, sleep, the
  stream opened for the same target with the cached descriptor, unlock), and then the
  read lock, the same conversion calls again and the append of the same rows on \<open>s\<close>.
\<close>

theorem conversion_repeated_each_attempt:
  assumes "managedStream g = Some ms"
    and "rows_of env g batch \<noteq> []"
    and "writeBatchWithRetry env batch rc g t = (r, g', t')"
  shows "count_ev is_AsBytes (new_events t t')
           = length batch * count_ev is_AppendRows (new_events t t')
       \<and> (\<forall>s rows. AppendRowsCall s rows \<in> set (new_events t t') \<longrightarrow> rows = rows_of env g batch)
       \<and> (\<forall>i<length batch.
             AsBytesCall i \<in> set (conv_events env g 0 batch)
           \<and> (\<forall>b. conv env g (batch ! i) = Inr b \<longrightarrow>
                  UnmarshalCall i \<in> set (conv_events env g 0 batch)
                \<and> MarshalCall i \<in> set (conv_events env g 0 batch)))
       \<and> (\<forall>m c e s.
             mwClient g = Some m \<longrightarrow> client g = Some c \<longrightarrow>
             attempt_error env (count_ev is_AppendRows t) = Some e \<longrightarrow>
             isReconnectableError (Some e) \<longrightarrow> rc < maxRetries \<longrightarrow>
             NewManagedStream env (count_ev is_NewManagedStream t) = Inr s \<longrightarrow>
             (\<exists>rest. t' = t @ [RLock, RUnlock] @ conv_events env g 0 batch
                          @ [AppendRowsCall ms (rows_of env g batch)]
                          @ (case AppendRows env (count_ev is_AppendRows t) of
                               None \<Rightarrow> [GetResultCall] | Some x \<Rightarrow> [])
                          @ [Lock, Closed StreamH ms, Sleep,
                             NewManagedStreamCall m (target (conf g), descriptorProto g),
                             Opened StreamH s, Unlock]
                          @ [RLock, RUnlock] @ conv_events env g 0 batch
                          @ [AppendRowsCall s (rows_of env g batch)] @ rest))"
proof (intro conjI allI impI)
  from wb_run_facts [of env batch rc g t] assms
  show "count_ev is_AsBytes (new_events t t')
           = length batch * count_ev is_AppendRows (new_events t t')"
    by (auto simp: run_facts_def)
next
  fix s rows assume "AppendRowsCall s rows \<in> set (new_events t t')"
  with wb_run_facts [of env batch rc g t] assms show "rows = rows_of env g batch"
    by (auto simp: run_facts_def)
next
  fix i assume "i < length batch"
  from conv_events_calls(1) [OF this, of 0 env g]
  show "AsBytesCall i \<in> set (conv_events env g 0 batch)" by simp
next
  fix i b assume "i < length batch" "conv env g (batch ! i) = Inr b"
  from conv_events_calls(2) [OF this, of 0]
  show "UnmarshalCall i \<in> set (conv_events env g 0 batch)" by simp
next
  fix i b assume "i < length batch" "conv env g (batch ! i) = Inr b"
  from conv_events_calls(2) [OF this, of 0]
  show "MarshalCall i \<in> set (conv_events env g 0 batch)" by simp
next
  fix m c e s
  assume mw: "mwClient g = Some m" and cl: "client g = Some c"
    and att: "attempt_error env (count_ev is_AppendRows t) = Some e"
    and rw: "isReconnectableError (Some e)" and lt: "rc < maxRetries"
    and ns: "NewManagedStream env (count_ev is_NewManagedStream t) = Inr s"
  let ?t1 = "attempt_trace env g batch ms t"
  let ?rec = "[Lock, Closed StreamH ms, Sleep,
               NewManagedStreamCall m (target (conf g), descriptorProto g),
               Opened StreamH s, Unlock]"
  let ?g1 = "g\<lparr>managedStream := Some s\<rparr>"
  have "count_ev is_NewManagedStream ?t1 = count_ev is_NewManagedStream t"
    by (simp add: attempt_trace_def conv_events_counts split: option.splits)
  with ns have "NewManagedStream env (count_ev is_NewManagedStream ?t1) = Inr s" by simp
  from reconnect_ok_explicit [OF assms(1) mw cl this]
  have rec: "reconnect env g ?t1 = (Return None, ?g1, ?t1 @ ?rec)" .
  from wb_error_retry [OF assms(1,2) att rw lt] rec assms(3)
  have run2: "writeBatchWithRetry env batch (rc + 1) ?g1 (?t1 @ ?rec) = (r, g', t')" by simp
  have rows1: "rows_of env ?g1 batch = rows_of env g batch"
    using rows_of_frame [of ?g1 g env batch] by simp
  have ce1: "conv_events env ?g1 0 batch = conv_events env g 0 batch"
    using conv_events_frame [of ?g1 g env 0 batch] by simp
  have ms1: "managedStream ?g1 = Some s" by simp
  have rows1': "rows_of env ?g1 batch \<noteq> []" using rows1 assms(2) by simp
  from wb_first_attempt [OF ms1 rows1' run2] obtain rest0 where
    "t' = attempt_trace env ?g1 batch s (?t1 @ ?rec) @ rest0" by blast
  then have "t' = ?t1 @ ?rec @ [RLock, RUnlock] @ conv_events env g 0 batch
                    @ [AppendRowsCall s (rows_of env g batch)]
                    @ ((case AppendRows env (count_ev is_AppendRows (?t1 @ ?rec)) of
                          None \<Rightarrow> [GetResultCall] | Some x \<Rightarrow> []) @ rest0)"
    by (simp add: attempt_trace_def [of env ?g1] rows1 ce1)
  then show "\<exists>rest. t' = t @ [RLock, RUnlock] @ conv_events env g 0 batch
                          @ [AppendRowsCall ms (rows_of env g batch)]
                          @ (case AppendRows env (count_ev is_AppendRows t) of
                               None \<Rightarrow> [GetResultCall] | Some x \<Rightarrow> [])
                          @ [Lock, Closed StreamH ms, Sleep,
                             NewManagedStreamCall m (target (conf g), descriptorProto g),
                             Opened StreamH s, Unlock]
                          @ [RLock, RUnlock] @ conv_events env g 0 batch
                          @ [AppendRowsCall s (rows_of env g batch)] @ rest"
    by (simp add: attempt_trace_def [of env g])
qed

theorem conversion_repeated_each_attempt_witness:
  "managedStream sample_sink = Some 9 \<and> mwClient sample_sink = Some 2 \<and> client sample_sink = Some 1
   \<and> rows_of abort_once_env sample_sink [Message 1] = [[1]]
   \<and> conv_events abort_once_env sample_sink 0 [Message 1]
       = [AsBytesCall 0, UnmarshalCall 0, MarshalCall 0]
   \<and> attempt_error abort_once_env 0 = Some aborted_error
   \<and> isReconnectableError (Some aborted_error)
   \<and> NewManagedStream abort_once_env 0 = Inr 10
   \<and> writeBatchWithRetry abort_once_env [Message 1] 0 sample_sink []
       = (Return None, sample_sink\<lparr>managedStream := Some 10\<rparr>,
          [RLock, RUnlock, AsBytesCall 0, UnmarshalCall 0, MarshalCall 0,
           AppendRowsCall 9 [[1]],
           Lock, Closed StreamH 9, Sleep,
           NewManagedStreamCall 2 ((''p'', ''d'', ''t''), Some (DescriptorProto 0)),
           Opened StreamH 10, Unlock,
           RLock, RUnlock, AsBytesCall 0, UnmarshalCall 0, MarshalCall 0,
           AppendRowsCall 10 [[1]], GetResultCall])
   \<and> count_ev is_AsBytes (new_events [] (snd (snd (writeBatchWithRetry abort_once_env [Message 1] 0 sample_sink []))))
       = length [Message 1] * 2"
proof -
  have h1: "managedStream sample_sink = Some 9" "mwClient sample_sink = Some 2"
    "client sample_sink = Some 1" by (simp_all add: sample_sink_def)
  have r: "rows_of abort_once_env sample_sink [Message 1] = [[1]]"
    by (simp add: conv_def convert_one_def abort_once_env_def sample_env_def sample_sink_def)
  have ce: "conv_events abort_once_env sample_sink 0 [Message 1]
       = [AsBytesCall 0, UnmarshalCall 0, MarshalCall 0]"
    by (simp add: convert_one_def abort_once_env_def sample_env_def sample_sink_def)
  have h2: "rows_of abort_once_env sample_sink [Message 1] \<noteq> []" using r by simp
  have att: "attempt_error abort_once_env 0 = Some aborted_error"
    by (simp add: attempt_error_def abort_once_env_def)
  have ab: "isReconnectableError (Some aborted_error)"
    by (simp add: isReconnectableError_def aborted_error_def)
  have ns: "NewManagedStream abort_once_env 0 = Inr 10"
    by (simp add: abort_once_env_def sample_env_def)
  have run: "writeBatchWithRetry abort_once_env [Message 1] 0 sample_sink []
       = (Return None, sample_sink\<lparr>managedStream := Some 10\<rparr>,
          [RLock, RUnlock, AsBytesCall 0, UnmarshalCall 0, MarshalCall 0,
           AppendRowsCall 9 [[1]],
           Lock, Closed StreamH 9, Sleep,
           NewManagedStreamCall 2 ((''p'', ''d'', ''t''), Some (DescriptorProto 0)),
           Opened StreamH 10, Unlock,
           RLock, RUnlock, AsBytesCall 0, UnmarshalCall 0, MarshalCall 0,
           AppendRowsCall 10 [[1]], GetResultCall])"
    by (simp add: writeBatchWithRetry.simps abort_once_env_def sample_env_def
        sample_sink_def sample_conf_def convert_one_def isReconnectableError_def
        aborted_error_def maxRetries_def reconnect_def target_def NoStreamOffset_def)
  from conversion_repeated_each_attempt [OF h1(1) h2 run] h1 r ce att ab ns run
  show ?thesis by (simp add: new_events_def)
qed





end
